theory Spec2Isabelle
  imports Complex_Main
begin

section \<open>Battle configuration\<close>

text \<open>
  The constants of \<^verbatim>\<open>BATTLE_CONFIG\<close> in \<^verbatim>\<open>serv.js\<close>. Resource amounts, damage and health
  are JavaScript numbers that only ever take integer values here; they are modelled as
  \<open>int\<close>. Times are milliseconds.
\<close>

definition MAX_HEALTH :: int where "MAX_HEALTH = 100"
definition ATTACK_COST :: int where "ATTACK_COST = 10"
definition SPECIAL_ATTACK_COST :: int where "SPECIAL_ATTACK_COST = 25"
definition BASE_ATTACK_DAMAGE :: int where "BASE_ATTACK_DAMAGE = 10"
definition SPECIAL_ATTACK_DAMAGE :: int where "SPECIAL_ATTACK_DAMAGE = 25"
definition TURN_TIME :: nat where "TURN_TIME = 30000"
definition MAX_TURNS :: nat where "MAX_TURNS = 20"

section \<open>Data model\<close>

text \<open>
  Player objects and battle objects are shared: the array \<^verbatim>\<open>players\<close> and the fields
  \<^verbatim>\<open>player1\<close>/\<^verbatim>\<open>player2\<close> of a battle hold references to the same objects, and a
  battle is referenced both from the array \<^verbatim>\<open>battles\<close> and from the closure of its turn
  timer. Objects therefore live in two stores, indexed by references.
\<close>

type_synonym ref = nat

record player =
  pid :: string
  name :: string
  resources :: int
  clickPower :: int
  autoPower :: int
  currentSkin :: string
  inBattle :: bool
  battleId :: "string option"

datatype status = Active | Finished | Cancelled

text \<open>
  The entries of the action log. An attack entry carries: special?, attacker name,
  defender name, damage, cost, turn, \<^verbatim>\<open>battleEnd\<close>, \<^verbatim>\<open>winner\<close> (a name). A timeout entry
  carries: the player id, damage, turn, \<^verbatim>\<open>battleEnd\<close>, \<^verbatim>\<open>winner\<close>. A cancel entry
  carries the reason. The wall-clock \<^verbatim>\<open>timestamp\<close> fields are left out.
\<close>

datatype action =
    AttackAction bool string string int int nat bool "string option"
  | TimeoutAction string int nat bool "string option"
  | CancelAction string

text \<open>
  \<^verbatim>\<open>health\<close> is an object keyed by player id. A key that is absent reads as
  \<^verbatim>\<open>undefined\<close>, and arithmetic on it gives \<^verbatim>\<open>NaN\<close>; both behave alike in every
  operation of the class and are the value \<open>None\<close>.
\<close>

record battle =
  bid :: string
  player1 :: ref
  player2 :: ref
  turn :: nat
  currentPlayer :: string
  health :: "string \<Rightarrow> int option"
  actions :: "action list"
  status :: status
  winner :: "string option"
  turnTimer :: "nat option"

text \<open>A pending \<^verbatim>\<open>setTimeout\<close>: its handle, the time it is due, the battle of its closure.\<close>

record timer =
  handle :: nat
  deadline :: nat
  owner :: ref

record server =
  heap :: "ref \<Rightarrow> player"
  players :: "ref list"
  bheap :: "ref \<Rightarrow> battle"
  battles :: "ref list"
  timers :: "timer list"
  nextHandle :: nat
  nextPlayer :: ref
  nextBattle :: ref

subsection \<open>JavaScript numbers that may be \<^verbatim>\<open>NaN\<close>\<close>

definition jsSub :: "int option \<Rightarrow> int \<Rightarrow> int option" where
  "jsSub h d = map_option (\<lambda>x. x - d) h"

definition jsMax0 :: "int option \<Rightarrow> int option" where
  "jsMax0 h = map_option (max 0) h"

definition jsLe0 :: "int option \<Rightarrow> bool" where
  "jsLe0 h = (case h of Some x \<Rightarrow> x \<le> 0 | None \<Rightarrow> False)"

definition jsGt :: "int option \<Rightarrow> int option \<Rightarrow> bool" where
  "jsGt a b = (case a of None \<Rightarrow> False
               | Some x \<Rightarrow> (case b of None \<Rightarrow> False | Some y \<Rightarrow> y < x))"

subsection \<open>Store access\<close>

text \<open>\<^verbatim>\<open>players.find(p => p.id === x)\<close>: the first registered object with that id.\<close>

definition findPlayer :: "server \<Rightarrow> string \<Rightarrow> ref option" where
  "findPlayer s x = List.find (\<lambda>r. pid (heap s r) = x) (players s)"

text \<open>The resource balance the registry holds for an id, if the id is registered.\<close>

definition balance :: "server \<Rightarrow> string \<Rightarrow> int option" where
  "balance s x = map_option (\<lambda>r. resources (heap s r)) (findPlayer s x)"

definition updBattle :: "ref \<Rightarrow> (battle \<Rightarrow> battle) \<Rightarrow> server \<Rightarrow> server" where
  "updBattle this f s = s\<lparr>bheap := (bheap s)(this := f (bheap s this))\<rparr>"

definition updPlayer :: "ref \<Rightarrow> (player \<Rightarrow> player) \<Rightarrow> server \<Rightarrow> server" where
  "updPlayer r f s = s\<lparr>heap := (heap s)(r := f (heap s r))\<rparr>"

text \<open>
  \<^verbatim>\<open>const i = players.findIndex(p => p.id === x); if (i !== -1) players[i].resources += d\<close>
\<close>

definition addResources :: "string \<Rightarrow> int \<Rightarrow> server \<Rightarrow> server" where
  "addResources x d s =
     (case findPlayer s x of
        None \<Rightarrow> s
      | Some r \<Rightarrow> updPlayer r (\<lambda>p. p\<lparr>resources := resources p + d\<rparr>) s)"

subsection \<open>Timers\<close>

definition clearTimeout :: "nat \<Rightarrow> server \<Rightarrow> server" where
  "clearTimeout h s = s\<lparr>timers := filter (\<lambda>t. handle t \<noteq> h) (timers s)\<rparr>"

text \<open>\<^verbatim>\<open>if (this.turnTimer) clearTimeout(this.turnTimer)\<close>\<close>

definition clearTurnTimer :: "ref \<Rightarrow> server \<Rightarrow> server" where
  "clearTurnTimer this s =
     (case turnTimer (bheap s this) of None \<Rightarrow> s | Some h \<Rightarrow> clearTimeout h s)"

section \<open>The class Battle\<close>

text \<open>
  \<^verbatim>\<open>new Battle(player1, player2)\<close>. The id comes from \<^verbatim>\<open>Math.random\<close> and is an input
  \<open>newId\<close> here. The constructor writes the health of \<open>player1\<close> first, so with equal
  ids there is one key.
\<close>

definition newBattle :: "server \<Rightarrow> string \<Rightarrow> ref \<Rightarrow> ref \<Rightarrow> battle" where
  "newBattle s newId p1 p2 =
     \<lparr>bid = newId, player1 = p1, player2 = p2, turn = 0,
      currentPlayer = pid (heap s p1),
      health = ((\<lambda>_. None)(pid (heap s p1) := Some MAX_HEALTH))
                 (pid (heap s p2) := Some MAX_HEALTH),
      actions = [], status = Active, winner = None, turnTimer = None\<rparr>"

definition getOpponent :: "server \<Rightarrow> ref \<Rightarrow> string \<Rightarrow> ref" where
  "getOpponent s this playerId =
     (let b = bheap s this
      in if playerId = pid (heap s (player1 b)) then player2 b else player1 b)"

definition isParticipant :: "server \<Rightarrow> ref \<Rightarrow> string \<Rightarrow> bool" where
  "isParticipant s this playerId =
     (let b = bheap s this
      in pid (heap s (player1 b)) = playerId \<or> pid (heap s (player2 b)) = playerId)"

text \<open>\<^verbatim>\<open>attackerId === this.player1.id ? this.player1 : this.player2\<close>\<close>

definition attackerOf :: "server \<Rightarrow> ref \<Rightarrow> string \<Rightarrow> ref" where
  "attackerOf s this attackerId =
     (let b = bheap s this
      in if attackerId = pid (heap s (player1 b)) then player1 b else player2 b)"

definition finishBattle :: "ref \<Rightarrow> string \<Rightarrow> server \<Rightarrow> server" where
  "finishBattle this winnerId s =
     (let s1 = updBattle this (\<lambda>b. b\<lparr>status := Finished, winner := Some winnerId\<rparr>) s;
          reward = 50 + int (turn (bheap s1 this)) * 5;
          s2 = addResources winnerId reward s1
      in clearTurnTimer this s2)"

text \<open>\<open>coin\<close> is the value of \<^verbatim>\<open>Math.random()\<close> drawn when the healths are not ordered.\<close>

definition getWinnerByHealth :: "server \<Rightarrow> ref \<Rightarrow> real \<Rightarrow> string" where
  "getWinnerByHealth s this coin =
     (let b = bheap s this;
          id1 = pid (heap s (player1 b));
          id2 = pid (heap s (player2 b))
      in if jsGt (health b id1) (health b id2) then id1
         else if jsGt (health b id2) (health b id1) then id2
         else if coin > 0.5 then id1 else id2)"

text \<open>
  The damage of an attack. \<^verbatim>\<open>Math.floor(x * 0.1)\<close> and \<^verbatim>\<open>Math.floor(x * 0.2)\<close> on an
  integer \<open>x\<close> are \<open>x div 10\<close> and \<open>x div 5\<close> (rounding down, also on negative
  numbers). \<open>rnd\<close> is the value of \<^verbatim>\<open>Math.random()\<close>, a number in \<open>[0, 1)\<close>.
\<close>

definition attackCost :: "bool \<Rightarrow> int" where
  "attackCost isSpecial = (if isSpecial then SPECIAL_ATTACK_COST else ATTACK_COST)"

definition baseDamage :: "bool \<Rightarrow> int" where
  "baseDamage isSpecial = (if isSpecial then SPECIAL_ATTACK_DAMAGE else BASE_ATTACK_DAMAGE)"

definition clickBonus :: "int \<Rightarrow> int" where
  "clickBonus cp = cp div 10"

definition variance :: "int \<Rightarrow> int" where
  "variance d = d div 5"

definition randomOffset :: "int \<Rightarrow> real \<Rightarrow> int" where
  "randomOffset v rnd = \<lfloor>rnd * of_int (v * 2 + 1)\<rfloor> - v"

definition attackDamage :: "bool \<Rightarrow> int \<Rightarrow> real \<Rightarrow> int" where
  "attackDamage isSpecial cp rnd =
     (let d = baseDamage isSpecial + clickBonus cp
      in d + randomOffset (variance d) rnd)"

text \<open>
  \<^verbatim>\<open>performAttack(attackerId, isSpecial)\<close>. The result \<open>None\<close> is the \<^verbatim>\<open>false\<close> the
  method returns when it rejects; otherwise it returns the action record. The record is
  changed after it was pushed (\<^verbatim>\<open>battleEnd\<close>, \<^verbatim>\<open>winner\<close>); the log holds the same object,
  so the entry of the log is the final record.
\<close>

definition performAttack ::
  "server \<Rightarrow> ref \<Rightarrow> string \<Rightarrow> bool \<Rightarrow> real \<Rightarrow> real \<Rightarrow> server \<times> action option" where
  "performAttack s this attackerId isSpecial rnd coin =
     (let b = bheap s this
      in if status b \<noteq> Active then (s, None)
         else if currentPlayer b \<noteq> attackerId then (s, None)
         else
           let attacker = attackerOf s this attackerId;
               defender = getOpponent s this attackerId;
               cost = attackCost isSpecial
           in if resources (heap s attacker) < cost then (s, None)
              else
                let s1 = addResources attackerId (- cost) s;
                    damage = attackDamage isSpecial (clickPower (heap s1 attacker)) rnd;
                    did = pid (heap s1 defender);
                    s2 = updBattle this (\<lambda>b. b\<lparr>health := (health b)
                           (did := jsMax0 (jsSub (health b did) damage))\<rparr>) s1;
                    aname = name (heap s2 attacker);
                    dname = name (heap s2 defender);
                    t = turn (bheap s2 this)
                in if jsLe0 (health (bheap s2 this) did)
                   then
                     let action = AttackAction isSpecial aname dname damage cost t
                                    True (Some aname);
                         s3 = updBattle this (\<lambda>b. b\<lparr>actions := actions b @ [action]\<rparr>) s2
                     in (finishBattle this attackerId s3, Some action)
                   else
                     let action = AttackAction isSpecial aname dname damage cost t
                                    False None;
                         s3 = updBattle this (\<lambda>b. b\<lparr>actions := actions b @ [action]\<rparr>) s2;
                         s4 = updBattle this (\<lambda>b. b\<lparr>currentPlayer := did,
                                turn := turn b + 1\<rparr>) s3
                     in if turn (bheap s4 this) \<ge> MAX_TURNS
                        then (finishBattle this (getWinnerByHealth s4 this coin) s4,
                              Some action)
                        else (s4, Some action))"

text \<open>
  \<^verbatim>\<open>startTurnTimer()\<close> at time \<open>now\<close>: clears the timer the battle holds, then arms a
  new one, due \<open>TURN_TIME\<close> later.
\<close>

definition startTurnTimer :: "ref \<Rightarrow> nat \<Rightarrow> server \<Rightarrow> server" where
  "startTurnTimer this now s =
     (let s1 = clearTurnTimer this s;
          h = nextHandle s1;
          s2 = s1\<lparr>timers := timers s1 @ [\<lparr>handle = h, deadline = now + TURN_TIME,
                                           owner = this\<rparr>],
                  nextHandle := h + 1\<rparr>
      in updBattle this (\<lambda>b. b\<lparr>turnTimer := Some h\<rparr>) s2)"

text \<open>The callback of the turn timer, run at time \<open>now\<close>.\<close>

definition turnTimeout :: "ref \<Rightarrow> nat \<Rightarrow> server \<Rightarrow> server" where
  "turnTimeout this now s =
     (if status (bheap s this) = Active
      then
        let skippedPlayer = currentPlayer (bheap s this);
            opponent = getOpponent s this skippedPlayer;
            s1 = updBattle this (\<lambda>b. b\<lparr>health := (health b)
                   (skippedPlayer := jsMax0 (jsSub (health b skippedPlayer) 5))\<rparr>) s;
            t = turn (bheap s1 this)
        in if jsLe0 (health (bheap s1 this) skippedPlayer)
           then
             let action = TimeoutAction skippedPlayer 5 t True
                            (Some (name (heap s1 opponent)));
                 s2 = updBattle this (\<lambda>b. b\<lparr>actions := actions b @ [action]\<rparr>) s1
             in finishBattle this (pid (heap s2 opponent)) s2
           else
             let action = TimeoutAction skippedPlayer 5 t False None;
                 s2 = updBattle this (\<lambda>b. b\<lparr>actions := actions b @ [action]\<rparr>) s1;
                 s3 = updBattle this (\<lambda>b. b\<lparr>currentPlayer := pid (heap s2 opponent),
                        turn := turn b + 1\<rparr>) s2
             in startTurnTimer this now s3
      else s)"

text \<open>
  A pending timer fires: it leaves the pending set (it is single-shot) and its callback
  runs. A handle that is not pending cannot fire.
\<close>

definition fireTimer :: "nat \<Rightarrow> nat \<Rightarrow> server \<Rightarrow> server" where
  "fireTimer h now s =
     (case List.find (\<lambda>t. handle t = h) (timers s) of
        None \<Rightarrow> s
      | Some t \<Rightarrow> turnTimeout (owner t) now (clearTimeout h s))"

definition cancelBattle :: "ref \<Rightarrow> string \<Rightarrow> server \<Rightarrow> server" where
  "cancelBattle this reason s =
     (let s1 = updBattle this (\<lambda>b. b\<lparr>status := Cancelled\<rparr>) s;
          s2 = clearTurnTimer this s1
      in updBattle this (\<lambda>b. b\<lparr>actions := actions b @ [CancelAction reason]\<rparr>) s2)"

section \<open>Event handlers\<close>

text \<open>
  The handlers registered on a socket. \<open>socketId\<close> is \<^verbatim>\<open>socket.id\<close>. Messages sent to
  clients are left out, except where a handler's outcome is one: the \<^verbatim>\<open>battle-error\<close>
  messages are the constructors of \<open>battleError\<close>, in the order of the source.
\<close>

datatype battleError =
    PlayerNotFound | SelfChallenge | AlreadyInBattle | NotEnoughFish
  | BattleNotFound | NotParticipant | BattleOver | AttackFailed

subsection \<open>Names\<close>

definition isDigit :: "char \<Rightarrow> bool" where
  "isDigit c = (c \<in> set ''0123456789'')"

text \<open>
  \<^verbatim>\<open>n.replace(/_[0-9]{2,4}$/, '')\<close>: the pattern matches when the longest run of digits at
  the end of the name has 2 to 4 digits and an underscore stands before it; the match is
  then the underscore and the digits.
\<close>

definition stripSuffix :: "string \<Rightarrow> string" where
  "stripSuffix n =
     (let ds = takeWhile isDigit (rev n);
          rest = dropWhile isDigit (rev n)
      in if 2 \<le> length ds \<and> length ds \<le> 4 \<and> rest \<noteq> [] \<and> hd rest = CHR ''_''
         then rev (tl rest) else n)"

text \<open>\<^verbatim>\<open>trim()\<close>, for the white space below code unit 128.\<close>

definition isSpace :: "char \<Rightarrow> bool" where
  "isSpace c = (c \<in> set [CHR 0x09, CHR 0x0A, CHR 0x0B, CHR 0x0C, CHR 0x0D, CHR '' ''])"

definition trim :: "string \<Rightarrow> string" where
  "trim n = rev (dropWhile isSpace (rev (dropWhile isSpace n)))"

text \<open>The decimal digits of a number, as string concatenation writes them.\<close>

definition digitChar :: "nat \<Rightarrow> char" where
  "digitChar d = ''0123456789'' ! d"

fun decimal :: "nat \<Rightarrow> string" where
  "decimal n = (if n < 10 then [digitChar n]
                else decimal (n div 10) @ [digitChar (n mod 10)])"

declare decimal.simps [simp del]

text \<open>\<^verbatim>\<open>100 + Math.floor(Math.random() * 900)\<close>\<close>

definition randomSuffix :: "real \<Rightarrow> nat" where
  "randomSuffix rnd = nat (100 + \<lfloor>rnd * 900\<rfloor>)"

text \<open>
  The prefix of a generated name: the Cyrillic word for "cat" and an underscore, as UTF-8.
\<close>

definition defaultPrefix :: string where
  "defaultPrefix = [CHR 0xD0, CHR 0x9A, CHR 0xD0, CHR 0xBE, CHR 0xD1, CHR 0x82, CHR ''_'']"

subsection \<open>player-join\<close>

text \<open>
  The payload of \<^verbatim>\<open>player-join\<close>; a field that is \<^verbatim>\<open>null\<close> or missing is \<open>None\<close>.
\<close>

record joinData =
  jname :: "string option"
  jresources :: "int option"
  jclickPower :: "int option"
  jautoPower :: "int option"
  jcurrentSkin :: "string option"

text \<open>\<^verbatim>\<open>x || d\<close> on a number (0 is falsy) and on a string (the empty string is falsy).\<close>

definition orNum :: "int option \<Rightarrow> int \<Rightarrow> int" where
  "orNum x d = (case x of None \<Rightarrow> d | Some v \<Rightarrow> if v = 0 then d else v)"

definition orStr :: "string option \<Rightarrow> string \<Rightarrow> string" where
  "orStr x d = (case x of None \<Rightarrow> d | Some v \<Rightarrow> if v = [] then d else v)"

text \<open>
  The name a joining player gets. \<open>rnd1\<close> and \<open>rnd2\<close> are the values of
  \<^verbatim>\<open>Math.random()\<close> for the generated name and for the suffix.
\<close>

definition requestedName :: "joinData \<Rightarrow> real \<Rightarrow> string" where
  "requestedName playerData rnd1 =
     (let playerName = (case jname playerData of
                          None \<Rightarrow> []
                        | Some n \<Rightarrow> if n = [] then [] else trim n)
      in if playerName = [] then defaultPrefix @ decimal (randomSuffix rnd1)
         else playerName)"

definition joinName :: "server \<Rightarrow> joinData \<Rightarrow> real \<Rightarrow> real \<Rightarrow> string" where
  "joinName s playerData rnd1 rnd2 =
     (let playerName = requestedName playerData rnd1;
          baseName = stripSuffix playerName;
          existingPlayer = List.find (\<lambda>r. stripSuffix (name (heap s r)) = baseName)
                             (players s)
      in case existingPlayer of
           None \<Rightarrow> playerName
         | Some _ \<Rightarrow> baseName @ ''_'' @ decimal (randomSuffix rnd2))"

definition player_join :: "server \<Rightarrow> string \<Rightarrow> joinData \<Rightarrow> real \<Rightarrow> real \<Rightarrow> server" where
  "player_join s socketId playerData rnd1 rnd2 =
     (let playerName = joinName s playerData rnd1 rnd2
      in case findPlayer s socketId of
           Some r \<Rightarrow>
             updPlayer r (\<lambda>p. p\<lparr>
               name := playerName,
               resources := (case jresources playerData of None \<Rightarrow> resources p | Some v \<Rightarrow> v),
               clickPower := (case jclickPower playerData of None \<Rightarrow> clickPower p | Some v \<Rightarrow> v),
               autoPower := (case jautoPower playerData of None \<Rightarrow> autoPower p | Some v \<Rightarrow> v),
               currentSkin := orStr (jcurrentSkin playerData) (currentSkin p)\<rparr>) s
         | None \<Rightarrow>
             let r = nextPlayer s
             in s\<lparr>heap := (heap s)(r :=
                    \<lparr>pid = socketId, name = playerName,
                     resources = orNum (jresources playerData) 0,
                     clickPower = orNum (jclickPower playerData) 1,
                     autoPower = orNum (jautoPower playerData) 0,
                     currentSkin = orStr (jcurrentSkin playerData) ''default'',
                     inBattle = False, battleId = None\<rparr>),
                  players := players s @ [r],
                  nextPlayer := r + 1\<rparr>)"

subsection \<open>player-update\<close>

definition player_update :: "server \<Rightarrow> string \<Rightarrow> joinData \<Rightarrow> server" where
  "player_update s socketId playerData =
     (case findPlayer s socketId of
        None \<Rightarrow> s
      | Some r \<Rightarrow>
          updPlayer r (\<lambda>p. p\<lparr>
            resources := orNum (jresources playerData) (resources p),
            clickPower := orNum (jclickPower playerData) (clickPower p),
            autoPower := orNum (jautoPower playerData) (autoPower p),
            currentSkin := orStr (jcurrentSkin playerData) (currentSkin p)\<rparr>) s)"

subsection \<open>battle-challenge\<close>

text \<open>
  The handler changes no state. On success it sends the challenge to the target: the
  result is the recipient and the id, name and resources of the challenger.
\<close>

definition battle_challenge ::
  "server \<Rightarrow> string \<Rightarrow> string \<Rightarrow> battleError + (string \<times> string \<times> string \<times> int)" where
  "battle_challenge s socketId targetId =
     (case findPlayer s socketId of
        None \<Rightarrow> Inl PlayerNotFound
      | Some challenger \<Rightarrow>
         (case findPlayer s targetId of
            None \<Rightarrow> Inl PlayerNotFound
          | Some targetPlayer \<Rightarrow>
              if pid (heap s challenger) = pid (heap s targetPlayer)
              then Inl SelfChallenge
              else if inBattle (heap s challenger) \<or> inBattle (heap s targetPlayer)
              then Inl AlreadyInBattle
              else if resources (heap s challenger) < ATTACK_COST
              then Inl NotEnoughFish
              else Inr (pid (heap s targetPlayer), pid (heap s challenger),
                        name (heap s challenger), resources (heap s challenger))))"

subsection \<open>battle-accept\<close>

definition battle_accept ::
  "server \<Rightarrow> string \<Rightarrow> string \<Rightarrow> string \<Rightarrow> nat \<Rightarrow> server \<times> battleError option" where
  "battle_accept s socketId challengerId newId now =
     (case findPlayer s socketId of
        None \<Rightarrow> (s, Some PlayerNotFound)
      | Some acceptor \<Rightarrow>
         (case findPlayer s challengerId of
            None \<Rightarrow> (s, Some PlayerNotFound)
          | Some challenger \<Rightarrow>
              if inBattle (heap s acceptor) \<or> inBattle (heap s challenger)
              then (s, Some AlreadyInBattle)
              else if resources (heap s acceptor) < ATTACK_COST
              then (s, Some NotEnoughFish)
              else
                let this = nextBattle s;
                    s1 = s\<lparr>bheap := (bheap s)(this := newBattle s newId challenger acceptor),
                           battles := battles s @ [this],
                           nextBattle := this + 1\<rparr>;
                    s2 = updPlayer challenger
                           (\<lambda>p. p\<lparr>inBattle := True, battleId := Some (bid (bheap s1 this))\<rparr>) s1;
                    s3 = updPlayer acceptor
                           (\<lambda>p. p\<lparr>inBattle := True, battleId := Some (bid (bheap s2 this))\<rparr>) s2
                in (startTurnTimer this now s3, None)))"

subsection \<open>battle-decline\<close>

text \<open>
  The handler sends one message, \<^verbatim>\<open>battle-declined\<close>, to the challenger: the result is
  the recipient, the name of the decliner and the reason, or no message. Reading
  \<^verbatim>\<open>decliner.name\<close> when \<^verbatim>\<open>decliner\<close> is \<^verbatim>\<open>undefined\<close> throws a \<^verbatim>\<open>TypeError\<close>.
  \<open>reason\<close> is \<^verbatim>\<open>data.reason\<close> with its default filled in.
\<close>

datatype jsError = TypeError

definition battle_decline ::
  "server \<Rightarrow> string \<Rightarrow> string \<Rightarrow> string \<Rightarrow> jsError + (string \<times> string \<times> string) option" where
  "battle_decline s socketId challengerId reason =
     (let decliner = findPlayer s socketId;
          challenger = findPlayer s challengerId
      in case challenger of
           None \<Rightarrow> Inr None
         | Some c \<Rightarrow>
            (case decliner of
               None \<Rightarrow> Inl TypeError
             | Some d \<Rightarrow> Inr (Some (pid (heap s c), name (heap s d), reason))))"

subsection \<open>battle-attack\<close>

text \<open>
  \<^verbatim>\<open>battles.find(b => b.id === x)\<close>. In the two handlers below \<open>wantedId\<close> is
  \<^verbatim>\<open>data.battleId\<close>.
\<close>

definition findBattle :: "server \<Rightarrow> string \<Rightarrow> ref option" where
  "findBattle s x = List.find (\<lambda>r. bid (bheap s r) = x) (battles s)"

definition battle_attack ::
  "server \<Rightarrow> string \<Rightarrow> string \<Rightarrow> bool \<Rightarrow> real \<Rightarrow> real \<Rightarrow> server \<times> (battleError + action)" where
  "battle_attack s socketId wantedId isSpecial rnd coin =
     (case findPlayer s socketId of
        None \<Rightarrow> (s, Inl BattleNotFound)
      | Some player \<Rightarrow>
         (case findBattle s wantedId of
            None \<Rightarrow> (s, Inl BattleNotFound)
          | Some battle \<Rightarrow>
              if \<not> isParticipant s battle (pid (heap s player))
              then (s, Inl NotParticipant)
              else if status (bheap s battle) \<noteq> Active
              then (s, Inl BattleOver)
              else
                (case performAttack s battle (pid (heap s player)) isSpecial rnd coin of
                   (s', Some action) \<Rightarrow> (s', Inr action)
                 | (s', None) \<Rightarrow> (s', Inl AttackFailed))))"

subsection \<open>battle-cancel\<close>

text \<open>
  \<^verbatim>\<open>const i = players.findIndex(p => p.id === x);
  if (i !== -1) { players[i].inBattle = false; players[i].battleId = null }\<close>
\<close>

definition releasePlayer :: "string \<Rightarrow> server \<Rightarrow> server" where
  "releasePlayer x s =
     (case findPlayer s x of
        None \<Rightarrow> s
      | Some r \<Rightarrow> updPlayer r (\<lambda>p. p\<lparr>inBattle := False, battleId := None\<rparr>) s)"

text \<open>\<open>reason\<close> is \<^verbatim>\<open>data.reason\<close> with its default filled in.\<close>

definition battle_cancel ::
  "server \<Rightarrow> string \<Rightarrow> string \<Rightarrow> string \<Rightarrow> server \<times> battleError option" where
  "battle_cancel s socketId wantedId reason =
     (case findPlayer s socketId of
        None \<Rightarrow> (s, Some BattleNotFound)
      | Some player \<Rightarrow>
         (case findBattle s wantedId of
            None \<Rightarrow> (s, Some BattleNotFound)
          | Some battle \<Rightarrow>
              if \<not> isParticipant s battle (pid (heap s player))
              then (s, Some NotParticipant)
              else
                let s1 = cancelBattle battle reason s;
                    s2 = releasePlayer (pid (heap s1 (player1 (bheap s1 battle)))) s1;
                    s3 = releasePlayer (pid (heap s2 (player2 (bheap s2 battle)))) s2
                in (s3\<lparr>battles := filter (\<lambda>r. bid (bheap s3 r) \<noteq> bid (bheap s3 battle))
                                     (battles s3)\<rparr>, None)))"

subsection \<open>disconnect\<close>

text \<open>
  The reason the handler gives: the Cyrillic words for "player" and "disconnected"
  around the connection id, as UTF-8.
\<close>

definition disconnectReason :: "string \<Rightarrow> string" where
  "disconnectReason socketId =
     [CHR 0xD0, CHR 0x98, CHR 0xD0, CHR 0xB3, CHR 0xD1, CHR 0x80, CHR 0xD0, CHR 0xBE,
      CHR 0xD0, CHR 0xBA, CHR '' ''] @ socketId @
     [CHR '' '', CHR 0xD0, CHR 0xBE, CHR 0xD1, CHR 0x82, CHR 0xD0, CHR 0xBA, CHR 0xD0,
      CHR 0xBB, CHR 0xD1, CHR 0x8E, CHR 0xD1, CHR 0x87, CHR 0xD0, CHR 0xB8, CHR 0xD0,
      CHR 0xBB, CHR 0xD1, CHR 0x81, CHR 0xD1, CHR 0x8F]"

text \<open>The body of the loop over the battles of the player who left.\<close>

definition disconnectBattle :: "string \<Rightarrow> ref \<Rightarrow> server \<Rightarrow> server" where
  "disconnectBattle socketId battle s =
     (let s1 = cancelBattle battle (disconnectReason socketId) s;
          opponent = getOpponent s1 battle socketId
      in releasePlayer (pid (heap s1 opponent)) s1)"

text \<open>
  \<^verbatim>\<open>players.splice(playerIndex, 1)\<close> takes out the first object with the id, which is the
  first occurrence of that object.
\<close>

definition disconnect :: "server \<Rightarrow> string \<Rightarrow> server" where
  "disconnect s socketId =
     (let playerBattles = filter (\<lambda>b. isParticipant s b socketId) (battles s);
          s1 = fold (disconnectBattle socketId) playerBattles s;
          s2 = s1\<lparr>battles := filter (\<lambda>b. \<not> isParticipant s1 b socketId) (battles s1)\<rparr>
      in case findPlayer s2 socketId of
           None \<Rightarrow> s2
         | Some r \<Rightarrow> s2\<lparr>players := remove1 r (players s2)\<rparr>)"

section \<open>The states a battle goes through\<close>

text \<open>
  \<open>reachable P s this\<close>: in the server state \<open>s\<close> the battle \<open>this\<close> is one that
  \<^verbatim>\<open>battle-accept\<close> created and that has since seen attacks, timeouts, cancellations and
  steps of the rest of the server. The rest of the server (other handlers, other
  battles) never writes to this battle object and never changes the id of a player
  object; nothing more is assumed of it. \<open>rnd\<close> is a value of \<^verbatim>\<open>Math.random()\<close>, a number
  in \<open>[0, 1)\<close>. The parameter \<open>P\<close> restricts the click power of the attackers.
\<close>

inductive reachable :: "(int \<Rightarrow> bool) \<Rightarrow> server \<Rightarrow> ref \<Rightarrow> bool" for P :: "int \<Rightarrow> bool" where
  accepted:
    "battle_accept s socketId challengerId newId now = (s', None)
     \<Longrightarrow> reachable P s' (nextBattle s)"
| attack:
    "reachable P s this \<Longrightarrow> 0 \<le> rnd \<Longrightarrow> rnd < 1
     \<Longrightarrow> P (clickPower (heap s (attackerOf s this attackerId)))
     \<Longrightarrow> reachable P (fst (performAttack s this attackerId isSpecial rnd coin)) this"
| timeout:
    "reachable P s this \<Longrightarrow> reachable P (turnTimeout this now s) this"
| cancel:
    "reachable P s this \<Longrightarrow> reachable P (cancelBattle this reason s) this"
| others:
    "reachable P s this \<Longrightarrow> bheap s' this = bheap s this
     \<Longrightarrow> pid (heap s' (player1 (bheap s this))) = pid (heap s (player1 (bheap s this)))
     \<Longrightarrow> pid (heap s' (player2 (bheap s this))) = pid (heap s (player2 (bheap s this)))
     \<Longrightarrow> reachable P s' this"


section \<open>A run of the server\<close>

text \<open>
  The server as it starts, and a run of it: two players join, the second accepts a
  challenge of the first at time 0. The contents of the stores at references that were
  never allocated are never read.
\<close>

definition noPlayer :: player where
  "noPlayer = \<lparr>pid = [], name = [], resources = 0, clickPower = 0, autoPower = 0,
               currentSkin = [], inBattle = False, battleId = None\<rparr>"

definition noBattle :: battle where
  "noBattle = \<lparr>bid = [], player1 = 0, player2 = 0, turn = 0, currentPlayer = [],
               health = (\<lambda>_. None), actions = [], status = Cancelled, winner = None,
               turnTimer = None\<rparr>"

definition initServer :: server where
  "initServer = \<lparr>heap = (\<lambda>_. noPlayer), players = [], bheap = (\<lambda>_. noBattle),
                 battles = [], timers = [], nextHandle = 0, nextPlayer = 0,
                 nextBattle = 0\<rparr>"

definition profile :: "string \<Rightarrow> int \<Rightarrow> int \<Rightarrow> joinData" where
  "profile n r c = \<lparr>jname = Some n, jresources = Some r, jclickPower = Some c,
                    jautoPower = None, jcurrentSkin = None\<rparr>"

definition lobby :: "int \<Rightarrow> int \<Rightarrow> int \<Rightarrow> int \<Rightarrow> server" where
  "lobby r1 c1 r2 c2 =
     player_join (player_join initServer ''s1'' (profile ''Alice'' r1 c1) 0 0)
       ''s2'' (profile ''Bob'' r2 c2) 0 0"

definition duel :: "int \<Rightarrow> int \<Rightarrow> int \<Rightarrow> int \<Rightarrow> server" where
  "duel r1 c1 r2 c2 = fst (battle_accept (lobby r1 c1 r2 c2) ''s2'' ''s1'' ''battle_a'' 0)"

section \<open>Facts about the stores\<close>

lemma updBattle_fields [simp]:
  "bheap (updBattle this f s) = (bheap s)(this := f (bheap s this))"
  "heap (updBattle this f s) = heap s"
  "players (updBattle this f s) = players s"
  "battles (updBattle this f s) = battles s"
  "timers (updBattle this f s) = timers s"
  "nextHandle (updBattle this f s) = nextHandle s"
  by (simp_all add: updBattle_def)

lemma updPlayer_fields [simp]:
  "heap (updPlayer r f s) = (heap s)(r := f (heap s r))"
  "bheap (updPlayer r f s) = bheap s"
  "players (updPlayer r f s) = players s"
  "battles (updPlayer r f s) = battles s"
  "timers (updPlayer r f s) = timers s"
  "nextHandle (updPlayer r f s) = nextHandle s"
  by (simp_all add: updPlayer_def)

lemma clearTimeout_fields [simp]:
  "heap (clearTimeout h s) = heap s"
  "bheap (clearTimeout h s) = bheap s"
  "players (clearTimeout h s) = players s"
  "battles (clearTimeout h s) = battles s"
  by (simp_all add: clearTimeout_def)

lemma clearTurnTimer_fields [simp]:
  "heap (clearTurnTimer this s) = heap s"
  "bheap (clearTurnTimer this s) = bheap s"
  "players (clearTurnTimer this s) = players s"
  "battles (clearTurnTimer this s) = battles s"
  by (simp_all add: clearTurnTimer_def split: option.split)

lemma findPlayer_cong:
  "players s' = players s \<Longrightarrow> (\<And>r. pid (heap s' r) = pid (heap s r)) \<Longrightarrow>
   findPlayer s' x = findPlayer s x"
  by (simp add: findPlayer_def)

lemma findPlayer_pid: "findPlayer s x = Some r \<Longrightarrow> pid (heap s r) = x"
  by (auto simp: findPlayer_def find_Some_iff)

lemma findPlayer_mem: "findPlayer s x = Some r \<Longrightarrow> r \<in> set (players s)"
  by (auto simp: findPlayer_def find_Some_iff)

lemma addResources_fields [simp]:
  "bheap (addResources x d s) = bheap s"
  "players (addResources x d s) = players s"
  "battles (addResources x d s) = battles s"
  "timers (addResources x d s) = timers s"
  "nextHandle (addResources x d s) = nextHandle s"
  by (simp_all add: addResources_def split: option.split)

lemma addResources_heap:
  "heap (addResources x d s) r =
     (if findPlayer s x = Some r then (heap s r)\<lparr>resources := resources (heap s r) + d\<rparr>
      else heap s r)"
  by (auto simp: addResources_def split: option.split)

lemma addResources_pid [simp]: "pid (heap (addResources x d s) r) = pid (heap s r)"
  by (simp add: addResources_heap)

lemma addResources_name [simp]: "name (heap (addResources x d s) r) = name (heap s r)"
  by (simp add: addResources_heap)

lemma addResources_clickPower [simp]:
  "clickPower (heap (addResources x d s) r) = clickPower (heap s r)"
  by (simp add: addResources_heap)

lemma findPlayer_addResources [simp]: "findPlayer (addResources x d s) y = findPlayer s y"
  by (rule findPlayer_cong) simp_all

lemma findPlayer_updBattle [simp]: "findPlayer (updBattle this f s) x = findPlayer s x"
  by (rule findPlayer_cong) simp_all

text \<open>Adding to the balance of one id changes the balance of that id, and of no other.\<close>

lemma balance_addResources:
  "balance (addResources x d s) y =
     (if y = x then map_option (\<lambda>v. v + d) (balance s x) else balance s y)"
proof (cases "findPlayer s y")
  case None
  then show ?thesis by (auto simp: balance_def)
next
  case (Some r)
  then have py: "pid (heap s r) = y" by (rule findPlayer_pid)
  show ?thesis
  proof (cases "y = x")
    case True
    with Some show ?thesis by (simp add: balance_def addResources_heap)
  next
    case False
    with py have "findPlayer s x \<noteq> Some r" using findPlayer_pid by blast
    with Some False show ?thesis by (simp add: balance_def addResources_heap)
  qed
qed

lemma balance_cong:
  "players s' = players s \<Longrightarrow> heap s' = heap s \<Longrightarrow> balance s' x = balance s x"
  by (simp add: balance_def findPlayer_def)

lemma balance_updBattle [simp]: "balance (updBattle this f s) x = balance s x"
  by (rule balance_cong) simp_all

lemma clearTurnTimer_nextHandle [simp]: "nextHandle (clearTurnTimer this s) = nextHandle s"
  by (simp add: clearTurnTimer_def clearTimeout_def split: option.split)

lemma startTurnTimer_fields [simp]:
  "heap (startTurnTimer this now s) = heap s"
  "players (startTurnTimer this now s) = players s"
  "battles (startTurnTimer this now s) = battles s"
  "bheap (startTurnTimer this now s) =
     (bheap s)(this := (bheap s this)\<lparr>turnTimer := Some (nextHandle s)\<rparr>)"
  by (simp_all add: startTurnTimer_def Let_def)

lemma balance_startTurnTimer [simp]: "balance (startTurnTimer this now s) x = balance s x"
  by (rule balance_cong) simp_all

section \<open>Facts about the class Battle\<close>

lemma finishBattle_fields [simp]:
  "players (finishBattle this w s) = players s"
  "battles (finishBattle this w s) = battles s"
  "pid (heap (finishBattle this w s) r) = pid (heap s r)"
  by (simp_all add: finishBattle_def Let_def)

lemma finishBattle_bheap:
  "bheap (finishBattle this w s) =
     (bheap s)(this := (bheap s this)\<lparr>status := Finished, winner := Some w\<rparr>)"
  by (simp add: finishBattle_def Let_def)

lemma finishBattle_balance:
  "balance (finishBattle this w s) y =
     (if y = w then map_option (\<lambda>v. v + (50 + int (turn (bheap s this)) * 5)) (balance s w)
      else balance s y)"
proof -
  let ?s1 = "updBattle this (\<lambda>b. b\<lparr>status := Finished, winner := Some w\<rparr>) s"
  let ?rew = "50 + int (turn (bheap s this)) * 5"
  have "balance (finishBattle this w s) y = balance (addResources w ?rew ?s1) y"
    unfolding finishBattle_def Let_def by (rule balance_cong) simp_all
  also have "\<dots> = (if y = w then map_option (\<lambda>v. v + ?rew) (balance ?s1 w) else balance ?s1 y)"
    by (rule balance_addResources)
  also have "balance ?s1 w = balance s w" by simp
  also have "balance ?s1 y = balance s y" by simp
  finally show ?thesis .
qed

lemma performAttack_rejected:
  "status (bheap s this) \<noteq> Active \<or> currentPlayer (bheap s this) \<noteq> aid \<or>
   resources (heap s (attackerOf s this aid)) < attackCost sp
   \<Longrightarrow> performAttack s this aid sp rnd coin = (s, None)"
  by (auto simp: performAttack_def Let_def)

lemma performAttack_accepted:
  "status (bheap s this) = Active \<Longrightarrow> currentPlayer (bheap s this) = aid \<Longrightarrow>
   \<not> resources (heap s (attackerOf s this aid)) < attackCost sp
   \<Longrightarrow> snd (performAttack s this aid sp rnd coin) \<noteq> None"
  by (simp add: performAttack_def Let_def)

lemma performAttack_balance:
  assumes "snd (performAttack s this aid sp rnd coin) \<noteq> None"
  shows "balance (fst (performAttack s this aid sp rnd coin)) aid =
         map_option (\<lambda>x. x - attackCost sp +
           (let b' = bheap (fst (performAttack s this aid sp rnd coin)) this
            in if status b' = Finished \<and> winner b' = Some aid
               then 50 + 5 * int (turn b') else 0)) (balance s aid)"
  using assms
  by (cases "balance s aid")
     (auto simp: performAttack_def Let_def finishBattle_balance finishBattle_bheap
        balance_addResources split: if_splits)

lemma performAttack_kill:
  assumes "snd (performAttack s this aid sp rnd coin) \<noteq> None"
    and "health (bheap (fst (performAttack s this aid sp rnd coin)) this)
           (pid (heap s (getOpponent s this aid))) = Some 0"
  shows "status (bheap (fst (performAttack s this aid sp rnd coin)) this) = Finished"
    and "winner (bheap (fst (performAttack s this aid sp rnd coin)) this) = Some aid"
    and "turn (bheap (fst (performAttack s this aid sp rnd coin)) this) = turn (bheap s this)"
  using assms
  by (auto simp: performAttack_def Let_def finishBattle_bheap jsLe0_def split: if_splits)






lemma performAttack_health:
  assumes "snd (performAttack s this aid sp rnd coin) \<noteq> None"
  shows "health (bheap (fst (performAttack s this aid sp rnd coin)) this)
           (pid (heap s (getOpponent s this aid))) =
         jsMax0 (jsSub (health (bheap s this) (pid (heap s (getOpponent s this aid))))
           (attackDamage sp (clickPower (heap s (attackerOf s this aid))) rnd))"
  using assms
  by (auto simp: performAttack_def Let_def getOpponent_def attackerOf_def finishBattle_bheap
       split: if_splits)

lemma finishBattle_heap:
  "heap (finishBattle this w s) r =
     (if findPlayer s w = Some r
      then (heap s r)\<lparr>resources := resources (heap s r) + (50 + int (turn (bheap s this)) * 5)\<rparr>
      else heap s r)"
  by (simp add: finishBattle_def Let_def addResources_heap)

lemma finishBattle_player_fields [simp]:
  "name (heap (finishBattle this w s) r) = name (heap s r)"
  "clickPower (heap (finishBattle this w s) r) = clickPower (heap s r)"
  "inBattle (heap (finishBattle this w s) r) = inBattle (heap s r)"
  "battleId (heap (finishBattle this w s) r) = battleId (heap s r)"
  by (simp_all add: finishBattle_heap)

lemma addResources_flags [simp]:
  "inBattle (heap (addResources x d s) r) = inBattle (heap s r)"
  "battleId (heap (addResources x d s) r) = battleId (heap s r)"
  by (simp_all add: addResources_heap)

lemma performAttack_frame:
  "players (fst (performAttack s this aid sp rnd coin)) = players s"
  "battles (fst (performAttack s this aid sp rnd coin)) = battles s"
  "pid (heap (fst (performAttack s this aid sp rnd coin)) r) = pid (heap s r)"
  "name (heap (fst (performAttack s this aid sp rnd coin)) r) = name (heap s r)"
  "clickPower (heap (fst (performAttack s this aid sp rnd coin)) r) = clickPower (heap s r)"
  "inBattle (heap (fst (performAttack s this aid sp rnd coin)) r) = inBattle (heap s r)"
  "battleId (heap (fst (performAttack s this aid sp rnd coin)) r) = battleId (heap s r)"
  by (simp_all add: performAttack_def Let_def)

lemma performAttack_battle_frame:
  "bid (bheap (fst (performAttack s this aid sp rnd coin)) x) = bid (bheap s x)"
  "player1 (bheap (fst (performAttack s this aid sp rnd coin)) x) = player1 (bheap s x)"
  "player2 (bheap (fst (performAttack s this aid sp rnd coin)) x) = player2 (bheap s x)"
  "turnTimer (bheap (fst (performAttack s this aid sp rnd coin)) x) = turnTimer (bheap s x)"
  "x \<noteq> this \<Longrightarrow> bheap (fst (performAttack s this aid sp rnd coin)) x = bheap s x"
  by (simp_all add: performAttack_def Let_def finishBattle_bheap)

lemma performAttack_timers:
  "status (bheap (fst (performAttack s this aid sp rnd coin)) this) = Active \<Longrightarrow>
   timers (fst (performAttack s this aid sp rnd coin)) = timers s"
  by (auto simp: performAttack_def Let_def finishBattle_bheap split: if_splits)

lemma findPlayer_performAttack [simp]:
  "findPlayer (fst (performAttack s this aid sp rnd coin)) x = findPlayer s x"
  by (rule findPlayer_cong) (simp_all add: performAttack_frame)

lemma findBattle_cong:
  "battles s' = battles s \<Longrightarrow> (\<And>r. bid (bheap s' r) = bid (bheap s r)) \<Longrightarrow>
   findBattle s' x = findBattle s x"
  by (simp add: findBattle_def)

lemma findBattle_performAttack [simp]:
  "findBattle (fst (performAttack s this aid sp rnd coin)) x = findBattle s x"
  by (rule findBattle_cong) (simp_all add: performAttack_frame performAttack_battle_frame)

lemma isParticipant_performAttack [simp]:
  "isParticipant (fst (performAttack s this aid sp rnd coin)) x y = isParticipant s x y"
  by (simp add: isParticipant_def Let_def performAttack_frame performAttack_battle_frame)

lemma battle_attack_fst:
  assumes "findPlayer s sid = Some p" "findBattle s wanted = Some b"
    and "isParticipant s b (pid (heap s p))" "status (bheap s b) = Active"
  shows "fst (battle_attack s sid wanted sp rnd coin) =
         fst (performAttack s b (pid (heap s p)) sp rnd coin)"
  using assms by (simp add: battle_attack_def split: prod.split option.split)


lemma cancelBattle_bheap:
  "bheap (cancelBattle this reason s) =
     (bheap s)(this := (bheap s this)\<lparr>status := Cancelled,
        actions := actions (bheap s this) @ [CancelAction reason]\<rparr>)"
  by (simp add: cancelBattle_def Let_def)

lemma cancelBattle_fields [simp]:
  "heap (cancelBattle this reason s) = heap s"
  "players (cancelBattle this reason s) = players s"
  "battles (cancelBattle this reason s) = battles s"
  by (simp_all add: cancelBattle_def Let_def)

lemma releasePlayer_fields [simp]:
  "bheap (releasePlayer x s) = bheap s"
  "players (releasePlayer x s) = players s"
  "battles (releasePlayer x s) = battles s"
  "timers (releasePlayer x s) = timers s"
  "pid (heap (releasePlayer x s) r) = pid (heap s r)"
  by (simp_all add: releasePlayer_def split: option.split)

text \<open>The handler of \<^verbatim>\<open>battle-cancel\<close> asks for a participant, not for an active battle.\<close>

lemma battle_cancel_status:
  assumes "findPlayer s sid = Some p" "findBattle s wanted = Some b"
    and "isParticipant s b (pid (heap s p))"
  shows "status (bheap (fst (battle_cancel s sid wanted reason)) b) = Cancelled"
    and "winner (bheap (fst (battle_cancel s sid wanted reason)) b) = winner (bheap s b)"
    and "snd (battle_cancel s sid wanted reason) = None"
  using assms by (simp_all add: battle_cancel_def Let_def cancelBattle_bheap)

lemma startTurnTimer_timers:
  "timers (startTurnTimer this now s) =
     timers (clearTurnTimer this s) @
       [\<lparr>handle = nextHandle s, deadline = now + TURN_TIME, owner = this\<rparr>]"
  by (simp add: startTurnTimer_def Let_def)

lemma startTurnTimer_clears:
  assumes "turnTimer (bheap s this) = Some h" "h \<noteq> nextHandle s"
  shows "\<forall>t \<in> set (timers (startTurnTimer this now s)). handle t \<noteq> h"
  using assms by (auto simp: startTurnTimer_timers clearTurnTimer_def clearTimeout_def)

lemma turnTimeout_rearms:
  assumes "status (bheap s this) = Active"
    and "status (bheap (turnTimeout this now s) this) = Active"
  shows "turnTimer (bheap (turnTimeout this now s) this) = Some (nextHandle s)"
    and "\<lparr>handle = nextHandle s, deadline = now + TURN_TIME, owner = this\<rparr>
           \<in> set (timers (turnTimeout this now s))"
  using assms
  by (auto simp: turnTimeout_def Let_def finishBattle_bheap startTurnTimer_timers
       split: if_splits)

section \<open>Facts about the handlers\<close>

lemma battle_accept_rejects:
  "findPlayer s sid = None \<or> findPlayer s cid = None \<Longrightarrow>
   battle_accept s sid cid newId now = (s, Some PlayerNotFound)"
  "findPlayer s sid = Some a \<Longrightarrow> findPlayer s cid = Some c \<Longrightarrow>
   inBattle (heap s a) \<or> inBattle (heap s c) \<Longrightarrow>
   battle_accept s sid cid newId now = (s, Some AlreadyInBattle)"
  "findPlayer s sid = Some a \<Longrightarrow> findPlayer s cid = Some c \<Longrightarrow>
   \<not> inBattle (heap s a) \<Longrightarrow> \<not> inBattle (heap s c) \<Longrightarrow> resources (heap s a) < ATTACK_COST \<Longrightarrow>
   battle_accept s sid cid newId now = (s, Some NotEnoughFish)"
  by (auto simp: battle_accept_def split: option.splits)

lemma battle_accept_creates:
  assumes "findPlayer s sid = Some a" "findPlayer s cid = Some c"
    and "\<not> inBattle (heap s a)" "\<not> inBattle (heap s c)"
    and "\<not> resources (heap s a) < ATTACK_COST"
  shows "snd (battle_accept s sid cid newId now) = None"
    and "battles (fst (battle_accept s sid cid newId now)) = battles s @ [nextBattle s]"
    and "players (fst (battle_accept s sid cid newId now)) = players s"
    and "bheap (fst (battle_accept s sid cid newId now)) (nextBattle s) =
           (newBattle s newId c a)\<lparr>turnTimer := Some (nextHandle s)\<rparr>"
    and "timers (fst (battle_accept s sid cid newId now)) =
           timers s @ [\<lparr>handle = nextHandle s, deadline = now + TURN_TIME,
                        owner = nextBattle s\<rparr>]"
    and "heap (fst (battle_accept s sid cid newId now)) =
           ((heap s)(c := (heap s c)\<lparr>inBattle := True, battleId := Some newId\<rparr>))
             (a := (((heap s)(c := (heap s c)\<lparr>inBattle := True, battleId := Some newId\<rparr>)) a)
                     \<lparr>inBattle := True, battleId := Some newId\<rparr>)"
  using assms
  by (simp_all add: battle_accept_def Let_def newBattle_def startTurnTimer_def
        clearTurnTimer_def updBattle_def updPlayer_def)

text \<open>The handler of \<^verbatim>\<open>battle-challenge\<close> does check the two conditions that acceptance does not.\<close>

lemma battle_challenge_checks:
  "findPlayer s sid = Some c \<Longrightarrow> battle_challenge s sid sid = Inl SelfChallenge"
  "findPlayer s sid = Some c \<Longrightarrow> findPlayer s tid = Some t \<Longrightarrow> sid \<noteq> tid \<Longrightarrow>
   \<not> inBattle (heap s c) \<Longrightarrow> \<not> inBattle (heap s t) \<Longrightarrow> resources (heap s c) < ATTACK_COST \<Longrightarrow>
   battle_challenge s sid tid = Inl NotEnoughFish"
  by (auto simp: battle_challenge_def dest: findPlayer_pid)

lemma releasePlayer_heap:
  "heap (releasePlayer x s) r =
     (if findPlayer s x = Some r then (heap s r)\<lparr>inBattle := False, battleId := None\<rparr>
      else heap s r)"
  by (auto simp: releasePlayer_def split: option.split)

lemma findPlayer_releasePlayer [simp]: "findPlayer (releasePlayer x s) y = findPlayer s y"
  by (rule findPlayer_cong) simp_all

lemma findPlayer_cancelBattle [simp]: "findPlayer (cancelBattle this reason s) y = findPlayer s y"
  by (rule findPlayer_cong) simp_all

text \<open>
  What \<^verbatim>\<open>battle-cancel\<close> does after the cancellation: the registry records of both
  participants are released and no battle with the id stays in \<^verbatim>\<open>battles\<close>.
\<close>

lemma battle_cancel_cleans:
  assumes "findPlayer s sid = Some p" "findBattle s wanted = Some b"
    and "isParticipant s b (pid (heap s p))"
    and "findPlayer s (pid (heap s q)) = Some r" "q \<in> {player1 (bheap s b), player2 (bheap s b)}"
  shows "\<not> inBattle (heap (fst (battle_cancel s sid wanted reason)) r)"
    and "battleId (heap (fst (battle_cancel s sid wanted reason)) r) = None"
    and "findBattle (fst (battle_cancel s sid wanted reason)) wanted = None"
proof -
  have bid: "bid (bheap s b) = wanted"
    using assms(2) by (auto simp: findBattle_def find_Some_iff)
  show "\<not> inBattle (heap (fst (battle_cancel s sid wanted reason)) r)"
    and "battleId (heap (fst (battle_cancel s sid wanted reason)) r) = None"
    using assms
    by (auto simp: battle_cancel_def Let_def releasePlayer_heap cancelBattle_bheap)
  show "findBattle (fst (battle_cancel s sid wanted reason)) wanted = None"
    using assms(1-3) bid
    by (auto simp: battle_cancel_def Let_def findBattle_def find_None_iff cancelBattle_bheap)
qed

text \<open>
  Through the handler of \<^verbatim>\<open>battle-attack\<close> the attacker is the registered player of the
  connection, so an attack that the handler reports as done has taken its cost from a
  balance that exists.
\<close>

lemma battle_attack_done:
  assumes "battle_attack s sid wanted sp rnd coin = (s', Inr act)"
  shows "\<exists>b x. findBattle s wanted = Some b
           \<and> performAttack s b sid sp rnd coin = (s', Some act)
           \<and> balance s sid = Some x
           \<and> balance s' sid =
               Some (x - attackCost sp +
                 (if status (bheap s' b) = Finished \<and> winner (bheap s' b) = Some sid
                  then 50 + 5 * int (turn (bheap s' b)) else 0))"
proof -
  from assms obtain p b where p: "findPlayer s sid = Some p"
    and b: "findBattle s wanted = Some b"
    and r: "performAttack s b (pid (heap s p)) sp rnd coin = (s', Some act)"
    by (auto simp: battle_attack_def split: option.splits if_splits prod.splits)
  from p have sid: "pid (heap s p) = sid" by (rule findPlayer_pid)
  from p have x: "balance s sid = Some (resources (heap s p))" by (simp add: balance_def)
  from r sid have r': "performAttack s b sid sp rnd coin = (s', Some act)" by simp
  then have "snd (performAttack s b sid sp rnd coin) \<noteq> None" by simp
  from performAttack_balance [OF this] r' x
  have "balance s' sid =
      Some (resources (heap s p) - attackCost sp +
        (if status (bheap s' b) = Finished \<and> winner (bheap s' b) = Some sid
         then 50 + 5 * int (turn (bheap s' b)) else 0))"
    by (simp add: Let_def)
  with b r' x show ?thesis by blast
qed

lemma battle_attack_cases:
  "fst (battle_attack s sid wanted sp rnd coin) = s \<or>
   (\<exists>b a. fst (battle_attack s sid wanted sp rnd coin) = fst (performAttack s b a sp rnd coin))"
  by (auto simp: battle_attack_def split: option.splits prod.splits)
     (metis fst_conv)+

text \<open>
  No attack and no timer callback, whether or not it finishes a battle, takes a battle
  out of \<^verbatim>\<open>battles\<close> or touches the in-battle flag or battle id of a player.
\<close>

lemma battle_attack_frame:
  "battles (fst (battle_attack s sid wanted sp rnd coin)) = battles s"
  "inBattle (heap (fst (battle_attack s sid wanted sp rnd coin)) r) = inBattle (heap s r)"
  "battleId (heap (fst (battle_attack s sid wanted sp rnd coin)) r) = battleId (heap s r)"
  using battle_attack_cases [of s sid wanted sp rnd coin]
  by (auto simp: performAttack_frame)

lemma fireTimer_frame:
  "battles (fireTimer h now s) = battles s"
  "inBattle (heap (fireTimer h now s) r) = inBattle (heap s r)"
  "battleId (heap (fireTimer h now s) r) = battleId (heap s r)"
  by (simp_all add: fireTimer_def turnTimeout_def Let_def split: option.splits)

section \<open>Facts about names\<close>

text \<open>The suffix the server appends, and what stripping does to it.\<close>

lemma randomSuffix_range:
  assumes "0 \<le> rnd" "rnd < 1"
  shows "100 \<le> randomSuffix rnd" and "randomSuffix rnd \<le> 999"
proof -
  have "0 \<le> rnd * 900" using assms(1) by simp
  then have lo: "0 \<le> \<lfloor>rnd * 900\<rfloor>" by simp
  have "rnd * 900 < 900" using assms(2) by simp
  then have hi: "\<lfloor>rnd * 900\<rfloor> < 900"
    using floor_less_iff [of "rnd * 900" 900] by simp
  show "100 \<le> randomSuffix rnd" and "randomSuffix rnd \<le> 999"
    unfolding randomSuffix_def using lo hi by linarith+
qed

lemma isDigit_digitChar: "d < 10 \<Longrightarrow> isDigit (digitChar d)"
  unfolding isDigit_def digitChar_def by (rule nth_mem) simp

lemma decimal_three:
  assumes "100 \<le> n" "n \<le> 999"
  shows "decimal n = [digitChar (n div 100), digitChar (n div 10 mod 10), digitChar (n mod 10)]"
proof -
  define m where "m = n div 10"
  define k where "k = m div 10"
  have m: "10 \<le> m" "m \<le> 99" using assms by (simp_all add: m_def)
  have k: "k < 10" "k = n div 100" using m by (simp_all add: k_def m_def div_mult2_eq [symmetric])
  have "decimal n = decimal m @ [digitChar (n mod 10)]"
    using assms by (subst decimal.simps) (simp add: m_def)
  also have "decimal m = decimal k @ [digitChar (m mod 10)]"
    using m by (subst decimal.simps) (simp add: k_def)
  also have "decimal k = [digitChar k]"
    using k by (subst decimal.simps) simp
  finally show ?thesis by (simp add: k m_def)
qed

lemma stripSuffix_suffixed:
  assumes "2 \<le> length ds" "length ds \<le> 4" "\<forall>c \<in> set ds. isDigit c"
  shows "stripSuffix (base @ ''_'' @ ds) = base"
proof -
  have nd: "\<not> isDigit CHR ''_''" by (simp add: isDigit_def)
  have r: "rev (base @ ''_'' @ ds) = rev ds @ CHR ''_'' # rev base" by simp
  have "takeWhile isDigit (rev ds @ CHR ''_'' # rev base)
          = rev ds @ takeWhile isDigit (CHR ''_'' # rev base)"
    by (rule takeWhile_append2) (use assms(3) in auto)
  then have t: "takeWhile isDigit (rev ds @ CHR ''_'' # rev base) = rev ds"
    using nd by simp
  have "dropWhile isDigit (rev ds @ CHR ''_'' # rev base)
          = dropWhile isDigit (CHR ''_'' # rev base)"
    by (rule dropWhile_append2) (use assms(3) in auto)
  then have d: "dropWhile isDigit (rev ds @ CHR ''_'' # rev base) = CHR ''_'' # rev base"
    using nd by simp
  show ?thesis
    unfolding stripSuffix_def Let_def r t d using assms(1,2) by simp
qed

lemma stripSuffix_decimal:
  assumes "0 \<le> rnd" "rnd < 1"
  shows "stripSuffix (base @ ''_'' @ decimal (randomSuffix rnd)) = base"
proof -
  note rg = randomSuffix_range [OF assms]
  have n: "randomSuffix rnd div 100 < 10" using rg by simp
  show ?thesis
    by (rule stripSuffix_suffixed)
       (simp_all add: decimal_three [OF rg] isDigit_digitChar n)
qed

text \<open>
  The name given on joining is the requested name, or its base with one suffix of three
  digits; either way its base is the base of the requested name.
\<close>

lemma joinName_cases:
  "joinName s d rnd1 rnd2 =
     (if \<exists>r \<in> set (players s). stripSuffix (name (heap s r)) = stripSuffix (requestedName d rnd1)
      then stripSuffix (requestedName d rnd1) @ ''_'' @ decimal (randomSuffix rnd2)
      else requestedName d rnd1)"
proof (cases "List.find (\<lambda>r. stripSuffix (name (heap s r)) = stripSuffix (requestedName d rnd1))
                (players s)")
  case None
  then have "\<not> (\<exists>r \<in> set (players s).
      stripSuffix (name (heap s r)) = stripSuffix (requestedName d rnd1))"
    by (auto simp: find_None_iff)
  with None show ?thesis by (simp add: joinName_def Let_def)
next
  case (Some r)
  then have "\<exists>r \<in> set (players s).
      stripSuffix (name (heap s r)) = stripSuffix (requestedName d rnd1)"
    by (auto simp: find_Some_iff)
  with Some show ?thesis by (simp add: joinName_def Let_def)
qed

lemma joinName_base:
  assumes "0 \<le> rnd2" "rnd2 < 1"
  shows "stripSuffix (joinName s d rnd1 rnd2) = stripSuffix (requestedName d rnd1)"
  using stripSuffix_decimal [OF assms, of "stripSuffix (requestedName d rnd1)"]
  by (simp add: joinName_cases)

section \<open>Facts about the random offset\<close>



section \<open>Facts about the run\<close>

lemma stripSuffix_Alice: "stripSuffix ''Alice'' = ''Alice''"
  by (simp add: stripSuffix_def isDigit_def)

lemma stripSuffix_Bob: "stripSuffix ''Bob'' = ''Bob''"
  by (simp add: stripSuffix_def isDigit_def)

lemma trim_Alice: "trim ''Alice'' = ''Alice''" "trim ''Bob'' = ''Bob''"
  by (simp_all add: trim_def isSpace_def)

lemmas join_defs = lobby_def player_join_def initServer_def findPlayer_def Let_def profile_def
  joinName_def requestedName_def stripSuffix_Alice stripSuffix_Bob trim_Alice updPlayer_def
  noPlayer_def orNum_def orStr_def

lemma lobby_players: "players (lobby r1 c1 r2 c2) = [0, 1]"
  by (simp add: join_defs)

lemma lobby_heap:
  "heap (lobby r1 c1 r2 c2) 0 = \<lparr>pid = ''s1'', name = ''Alice'', resources = r1,
     clickPower = (if c1 = 0 then 1 else c1), autoPower = 0, currentSkin = ''default'',
     inBattle = False, battleId = None\<rparr>"
  "heap (lobby r1 c1 r2 c2) (Suc 0) = \<lparr>pid = ''s2'', name = ''Bob'', resources = r2,
     clickPower = (if c2 = 0 then 1 else c2), autoPower = 0, currentSkin = ''default'',
     inBattle = False, battleId = None\<rparr>"
  by (simp_all add: join_defs)

lemma lobby_rest:
  "battles (lobby r1 c1 r2 c2) = []" "timers (lobby r1 c1 r2 c2) = []"
  "nextHandle (lobby r1 c1 r2 c2) = 0" "nextBattle (lobby r1 c1 r2 c2) = 0"
  by (simp_all add: join_defs)

lemma lobby_find:
  "findPlayer (lobby r1 c1 r2 c2) ''s1'' = Some 0"
  "findPlayer (lobby r1 c1 r2 c2) ''s2'' = Some 1"
  by (simp_all add: findPlayer_def lobby_players lobby_heap)

lemmas accept_defs = duel_def battle_accept_def lobby_find lobby_heap lobby_rest lobby_players
  Let_def ATTACK_COST_def newBattle_def updPlayer_def startTurnTimer_def clearTurnTimer_def
  updBattle_def MAX_HEALTH_def TURN_TIME_def

lemma duel_players: "\<not> r2 < 10 \<Longrightarrow> players (duel r1 c1 r2 c2) = [0, 1]"
  by (simp add: accept_defs)

lemma duel_heap:
  "\<not> r2 < 10 \<Longrightarrow> heap (duel r1 c1 r2 c2) 0 = \<lparr>pid = ''s1'', name = ''Alice'',
     resources = r1, clickPower = (if c1 = 0 then 1 else c1), autoPower = 0,
     currentSkin = ''default'', inBattle = True, battleId = Some ''battle_a''\<rparr>"
  "\<not> r2 < 10 \<Longrightarrow> heap (duel r1 c1 r2 c2) (Suc 0) = \<lparr>pid = ''s2'', name = ''Bob'',
     resources = r2, clickPower = (if c2 = 0 then 1 else c2), autoPower = 0,
     currentSkin = ''default'', inBattle = True, battleId = Some ''battle_a''\<rparr>"
  by (simp_all add: accept_defs)

lemma duel_bheap:
  "\<not> r2 < 10 \<Longrightarrow> bheap (duel r1 c1 r2 c2) 0 =
     \<lparr>bid = ''battle_a'', player1 = 0, player2 = 1, turn = 0, currentPlayer = ''s1'',
      health = ((\<lambda>_. None)(''s1'' := Some 100))(''s2'' := Some 100),
      actions = [], status = Active, winner = None, turnTimer = Some 0\<rparr>"
  by (simp add: accept_defs)

lemma duel_rest:
  "\<not> r2 < 10 \<Longrightarrow> battles (duel r1 c1 r2 c2) = [0]"
  "\<not> r2 < 10 \<Longrightarrow> timers (duel r1 c1 r2 c2) = [\<lparr>handle = 0, deadline = 30000, owner = 0\<rparr>]"
  "\<not> r2 < 10 \<Longrightarrow> nextHandle (duel r1 c1 r2 c2) = 1"
  by (simp_all add: accept_defs)

lemma duel_find:
  "\<not> r2 < 10 \<Longrightarrow> findPlayer (duel r1 c1 r2 c2) ''s1'' = Some 0"
  "\<not> r2 < 10 \<Longrightarrow> findPlayer (duel r1 c1 r2 c2) ''s2'' = Some 1"
  by (simp_all add: findPlayer_def duel_players duel_heap)

lemmas attack_defs = performAttack_def Let_def duel_bheap duel_heap duel_find duel_players
  getOpponent_def attackerOf_def attackCost_def ATTACK_COST_def SPECIAL_ATTACK_COST_def addResources_def
  updPlayer_def updBattle_def attackDamage_def baseDamage_def BASE_ATTACK_DAMAGE_def
  SPECIAL_ATTACK_DAMAGE_def clickBonus_def variance_def randomOffset_def jsMax0_def jsSub_def
  jsLe0_def MAX_TURNS_def finishBattle_def clearTurnTimer_def clearTimeout_def duel_rest

lemma lobby_stranger: "findPlayer (lobby r1 c1 r2 c2) ''s9'' = None"
  by (simp add: findPlayer_def lobby_players lobby_heap)

lemma decimal_550: "decimal 550 = ''550''"
  by (simp add: decimal.simps [of 550] decimal.simps [of 55] decimal.simps [of 5] digitChar_def)

lemma randomSuffix_half: "randomSuffix (1/2) = 550"
  by (simp add: randomSuffix_def)

lemmas damage_defs = attackerOf_def attackCost_def ATTACK_COST_def SPECIAL_ATTACK_COST_def
  attackDamage_def baseDamage_def BASE_ATTACK_DAMAGE_def SPECIAL_ATTACK_DAMAGE_def
  clickBonus_def variance_def randomOffset_def jsMax0_def jsSub_def jsLe0_def Let_def

lemma duel_findBattle: "\<not> r2 < 10 \<Longrightarrow> findBattle (duel r1 c1 r2 c2) ''battle_a'' = Some 0"
  by (simp add: findBattle_def duel_rest duel_bheap)

lemma duel_isParticipant:
  "\<not> r2 < 10 \<Longrightarrow> isParticipant (duel r1 c1 r2 c2) 0 ''s1''"
  "\<not> r2 < 10 \<Longrightarrow> isParticipant (duel r1 c1 r2 c2) 0 ''s2''"
  by (simp_all add: isParticipant_def duel_bheap duel_heap)

lemma duel_opponent:
  "\<not> r2 < 10 \<Longrightarrow> getOpponent (duel r1 c1 r2 c2) 0 ''s1'' = 1"
  "\<not> r2 < 10 \<Longrightarrow> getOpponent (duel r1 c1 r2 c2) 0 ''s2'' = 0"
  by (simp_all add: getOpponent_def duel_bheap duel_heap)

text \<open>The attack that ends the battle of the run at once.\<close>

lemma knockout:
  "fst (battle_attack (duel 100 2000 100 15) ''s1'' ''battle_a'' False 0 0)
     = fst (performAttack (duel 100 2000 100 15) 0 ''s1'' False 0 0)"
  "snd (performAttack (duel 100 2000 100 15) 0 ''s1'' False 0 0) \<noteq> None"
  "status (bheap (fst (performAttack (duel 100 2000 100 15) 0 ''s1'' False 0 0)) 0) = Finished"
  "winner (bheap (fst (performAttack (duel 100 2000 100 15) 0 ''s1'' False 0 0)) 0)
     = Some ''s1''"
proof -
  let ?s = "duel 100 2000 100 15"
  let ?r = "performAttack ?s 0 ''s1'' False 0 0"
  have "fst (battle_attack ?s ''s1'' ''battle_a'' False 0 0)
     = fst (performAttack ?s 0 (pid (heap ?s 0)) False 0 0)"
    by (rule battle_attack_fst)
       (simp_all add: duel_find duel_findBattle duel_isParticipant duel_heap duel_bheap)
  then show "fst (battle_attack ?s ''s1'' ''battle_a'' False 0 0) = fst ?r"
    by (simp add: duel_heap)
  show acc: "snd ?r \<noteq> None"
    by (rule performAttack_accepted) (simp_all add: duel_bheap duel_heap damage_defs)
  have "health (bheap (fst ?r) 0) (pid (heap ?s (getOpponent ?s 0 ''s1''))) = Some 0"
    using performAttack_health [OF acc]
    by (simp add: duel_opponent duel_bheap duel_heap damage_defs)
  with acc show "status (bheap (fst ?r) 0) = Finished"
    and "winner (bheap (fst ?r) 0) = Some ''s1''"
    by (simp_all add: performAttack_kill)
qed

lemma first_blow:
  "fst (battle_attack (duel 100 15 100 15) ''s1'' ''battle_a'' False (1/2) 0)
     = fst (performAttack (duel 100 15 100 15) 0 ''s1'' False (1/2) 0)"
  "bheap (fst (performAttack (duel 100 15 100 15) 0 ''s1'' False (1/2) 0)) 0 =
     \<lparr>bid = ''battle_a'', player1 = 0, player2 = 1, turn = 1, currentPlayer = ''s2'',
      health = ((\<lambda>_. None)(''s1'' := Some 100))(''s2'' := Some 89),
      actions = [AttackAction False ''Alice'' ''Bob'' 11 10 0 False None],
      status = Active, winner = None, turnTimer = Some 0\<rparr>"
  "timers (fst (performAttack (duel 100 15 100 15) 0 ''s1'' False (1/2) 0))
     = [\<lparr>handle = 0, deadline = 30000, owner = 0\<rparr>]"
proof -
  let ?s = "duel 100 15 100 15"
  let ?r = "performAttack ?s 0 ''s1'' False (1/2) 0"
  have "fst (battle_attack ?s ''s1'' ''battle_a'' False (1/2) 0)
     = fst (performAttack ?s 0 (pid (heap ?s 0)) False (1/2) 0)"
    by (rule battle_attack_fst)
       (simp_all add: duel_find duel_findBattle duel_isParticipant duel_heap duel_bheap)
  then show "fst (battle_attack ?s ''s1'' ''battle_a'' False (1/2) 0) = fst ?r"
    by (simp add: duel_heap)
  show b: "bheap (fst ?r) 0 =
     \<lparr>bid = ''battle_a'', player1 = 0, player2 = 1, turn = 1, currentPlayer = ''s2'',
      health = ((\<lambda>_. None)(''s1'' := Some 100))(''s2'' := Some 89),
      actions = [AttackAction False ''Alice'' ''Bob'' 11 10 0 False None],
      status = Active, winner = None, turnTimer = Some 0\<rparr>"
    by (simp add: attack_defs fun_upd_twist)
  then have "status (bheap (fst ?r) 0) = Active" by simp
  then show "timers (fst ?r) = [\<lparr>handle = 0, deadline = 30000, owner = 0\<rparr>]"
    by (simp add: performAttack_timers duel_rest)
qed



section \<open>Rejected and accepted attacks\<close>



section \<open>The reward of the winner\<close>



section \<open>Cost and damage of an attack\<close>




section \<open>Terminal states\<close>

text \<open>
  An attack and a timer callback leave a battle that is not active as it is; the method
  \<^verbatim>\<open>cancelBattle\<close> has no such guard and sets the status of any battle.
\<close>

lemma performAttack_terminal:
  "status (bheap s this) \<noteq> Active \<Longrightarrow> performAttack s this aid sp rnd coin = (s, None)"
  by (simp add: performAttack_rejected)

lemma turnTimeout_terminal:
  "status (bheap s this) \<noteq> Active \<Longrightarrow> turnTimeout this now s = s"
  by (simp add: turnTimeout_def)

lemma cancelBattle_status:
  "status (bheap (cancelBattle this reason s) this) = Cancelled"
  "health (bheap (cancelBattle this reason s) this) = health (bheap s this)"
  "turn (bheap (cancelBattle this reason s) this) = turn (bheap s this)"
  "currentPlayer (bheap (cancelBattle this reason s) this) = currentPlayer (bheap s this)"
  "winner (bheap (cancelBattle this reason s) this) = winner (bheap s this)"
  by (simp_all add: cancelBattle_bheap)

text \<open>
  Claim C1, at the input where the code departs from it. In the run, Alice's first attack
  finishes the battle with her as winner. The battle stays in \<^verbatim>\<open>battles\<close>, so Bob's
  \<^verbatim>\<open>battle-cancel\<close> for it is served, and the status of the finished battle becomes
  cancelled.
\<close>

theorem cancel_after_finish:
  "status (bheap (fst (battle_attack (duel 100 2000 100 15) ''s1'' ''battle_a'' False 0 0)) 0)
     = Finished
   \<and> winner (bheap (fst (battle_attack (duel 100 2000 100 15) ''s1'' ''battle_a'' False 0 0)) 0)
     = Some ''s1''
   \<and> snd (battle_cancel (fst (battle_attack (duel 100 2000 100 15) ''s1'' ''battle_a''
             False 0 0)) ''s2'' ''battle_a'' ''left'') = None
   \<and> status (bheap (fst (battle_cancel (fst (battle_attack (duel 100 2000 100 15) ''s1''
             ''battle_a'' False 0 0)) ''s2'' ''battle_a'' ''left'')) 0) = Cancelled"
proof -
  let ?s = "duel 100 2000 100 15"
  let ?s1 = "fst (performAttack ?s 0 ''s1'' False 0 0)"
  have f: "findPlayer ?s1 ''s2'' = Some 1" by (simp add: duel_find)
  have b: "findBattle ?s1 ''battle_a'' = Some 0" by (simp add: duel_findBattle)
  have p: "isParticipant ?s1 0 (pid (heap ?s1 1))"
    by (simp add: performAttack_frame duel_heap duel_isParticipant)
  from battle_cancel_status [OF f b p] knockout show ?thesis by simp
qed

section \<open>Cleanup after a battle has finished\<close>

text \<open>
  Claim C2, at the input where the code departs from it. After the attack that finishes
  the battle of the run, the battle is still in \<^verbatim>\<open>battles\<close>, and both players still
  carry the in-battle flag and the id of the battle; a new acceptance between the two is
  rejected because they count as being in a battle. The handler of \<^verbatim>\<open>battle-cancel\<close>
  does release the players and drop the battle (\<open>battle_cancel_cleans\<close>); the handler
  of \<^verbatim>\<open>battle-attack\<close> and the timer callback never do (\<open>battle_attack_frame\<close>,
  \<open>fireTimer_frame\<close>).
\<close>

theorem finished_battle_stays:
  "status (bheap (fst (battle_attack (duel 100 2000 100 15) ''s1'' ''battle_a'' False 0 0)) 0)
     = Finished
   \<and> battles (fst (battle_attack (duel 100 2000 100 15) ''s1'' ''battle_a'' False 0 0)) = [0]
   \<and> inBattle (heap (fst (battle_attack (duel 100 2000 100 15) ''s1'' ''battle_a''
        False 0 0)) 0)
   \<and> battleId (heap (fst (battle_attack (duel 100 2000 100 15) ''s1'' ''battle_a''
        False 0 0)) 0) = Some ''battle_a''
   \<and> inBattle (heap (fst (battle_attack (duel 100 2000 100 15) ''s1'' ''battle_a''
        False 0 0)) 1)
   \<and> battleId (heap (fst (battle_attack (duel 100 2000 100 15) ''s1'' ''battle_a''
        False 0 0)) 1) = Some ''battle_a''
   \<and> battle_accept (fst (battle_attack (duel 100 2000 100 15) ''s1'' ''battle_a''
        False 0 0)) ''s2'' ''s1'' ''battle_b'' 60000
       = (fst (battle_attack (duel 100 2000 100 15) ''s1'' ''battle_a'' False 0 0),
          Some AlreadyInBattle)"
  using knockout
  by (simp add: performAttack_frame duel_rest duel_heap duel_find battle_accept_def)

section \<open>The turn timer\<close>

text \<open>
  Claim C3, at the input where the code departs from it. In the run the battle starts at
  time 0 with a timer due at 30000. Alice attacks; the turn passes to Bob and the counter
  goes to 1, but the pending timer is still the one of the start, due at 30000, whenever
  the attack was made. When it fires, Bob is the one who loses 5 health (89 to 84).

  The rest of the claim holds: arming clears the timer the battle holds before it sets
  the new one (\<open>startTurnTimer_clears\<close>), the acceptance arms the first timer
  (\<open>battle_accept_creates\<close>), and a timeout that does not end the battle arms a timer
  for the next turn (\<open>turnTimeout_rearms\<close>). An attack never arms one
  (\<open>performAttack_timers\<close>, \<open>performAttack_battle_frame\<close>).
\<close>

theorem attack_does_not_rearm:
  "timers (duel 100 15 100 15) = [\<lparr>handle = 0, deadline = 30000, owner = 0\<rparr>]
   \<and> status (bheap (fst (battle_attack (duel 100 15 100 15) ''s1'' ''battle_a''
        False (1/2) 0)) 0) = Active
   \<and> turn (bheap (fst (battle_attack (duel 100 15 100 15) ''s1'' ''battle_a''
        False (1/2) 0)) 0) = 1
   \<and> currentPlayer (bheap (fst (battle_attack (duel 100 15 100 15) ''s1'' ''battle_a''
        False (1/2) 0)) 0) = ''s2''
   \<and> turnTimer (bheap (fst (battle_attack (duel 100 15 100 15) ''s1'' ''battle_a''
        False (1/2) 0)) 0) = Some 0
   \<and> timers (fst (battle_attack (duel 100 15 100 15) ''s1'' ''battle_a'' False (1/2) 0))
       = [\<lparr>handle = 0, deadline = 30000, owner = 0\<rparr>]
   \<and> health (bheap (fireTimer 0 30000 (fst (battle_attack (duel 100 15 100 15) ''s1''
        ''battle_a'' False (1/2) 0))) 0) ''s2'' = Some 84"
proof -
  let ?s1 = "fst (performAttack (duel 100 15 100 15) 0 ''s1'' False (1/2) 0)"
  have "health (bheap (fireTimer 0 30000 ?s1) 0) ''s2'' = Some 84"
    by (simp add: fireTimer_def first_blow turnTimeout_def Let_def getOpponent_def
         performAttack_frame duel_heap jsMax0_def jsSub_def jsLe0_def clearTimeout_def)
  then show ?thesis by (simp add: first_blow duel_rest)
qed

section \<open>Accepting a challenge\<close>

text \<open>
  Claim C4, as amended. The handler of \<^verbatim>\<open>battle-accept\<close> rejects, with the server state
  unchanged, when the acceptor or the challenger is not registered, when one of them is
  flagged as in a battle, and when the acceptor (not the challenger) holds fewer than 10
  resources. Otherwise, for an acceptor and a challenger with different ids, it creates
  the battle: challenger first, both at health 100, the challenger to move, both players
  flagged with the id of the battle, the turn timer armed for 30 seconds. The resources of
  the challenger and the difference of the two players are checked by \<^verbatim>\<open>battle-challenge\<close>
  (\<open>battle_challenge_checks\<close>), before the challenge is sent.
\<close>

theorem battle_accept_validation:
  "(findPlayer s sid = None \<or> findPlayer s cid = None \<longrightarrow>
      battle_accept s sid cid newId now = (s, Some PlayerNotFound))
   \<and> (\<forall>a c. findPlayer s sid = Some a \<and> findPlayer s cid = Some c \<longrightarrow>
        (inBattle (heap s a) \<or> inBattle (heap s c) \<longrightarrow>
           battle_accept s sid cid newId now = (s, Some AlreadyInBattle))
      \<and> (\<not> inBattle (heap s a) \<and> \<not> inBattle (heap s c) \<and> resources (heap s a) < 10 \<longrightarrow>
           battle_accept s sid cid newId now = (s, Some NotEnoughFish))
      \<and> (\<not> inBattle (heap s a) \<and> \<not> inBattle (heap s c) \<and> \<not> resources (heap s a) < 10
           \<and> sid \<noteq> cid \<longrightarrow>
           (let s' = fst (battle_accept s sid cid newId now);
                b = bheap s' (nextBattle s)
            in snd (battle_accept s sid cid newId now) = None
             \<and> battles s' = battles s @ [nextBattle s]
             \<and> bid b = newId \<and> player1 b = c \<and> player2 b = a
             \<and> status b = Active \<and> turn b = 0 \<and> currentPlayer b = cid
             \<and> health b cid = Some 100 \<and> health b sid = Some 100
             \<and> inBattle (heap s' a) \<and> battleId (heap s' a) = Some newId
             \<and> inBattle (heap s' c) \<and> battleId (heap s' c) = Some newId
             \<and> timers s' = timers s @ [\<lparr>handle = nextHandle s, deadline = now + 30000,
                                         owner = nextBattle s\<rparr>])))"
proof -
  have nf: "findPlayer s sid = None \<or> findPlayer s cid = None \<longrightarrow>
      battle_accept s sid cid newId now = (s, Some PlayerNotFound)"
    by (simp add: battle_accept_rejects)
  have rest: "(inBattle (heap s a) \<or> inBattle (heap s c) \<longrightarrow>
           battle_accept s sid cid newId now = (s, Some AlreadyInBattle))
      \<and> (\<not> inBattle (heap s a) \<and> \<not> inBattle (heap s c) \<and> resources (heap s a) < 10 \<longrightarrow>
           battle_accept s sid cid newId now = (s, Some NotEnoughFish))
      \<and> (\<not> inBattle (heap s a) \<and> \<not> inBattle (heap s c) \<and> \<not> resources (heap s a) < 10
           \<and> sid \<noteq> cid \<longrightarrow>
           (let s' = fst (battle_accept s sid cid newId now);
                b = bheap s' (nextBattle s)
            in snd (battle_accept s sid cid newId now) = None
             \<and> battles s' = battles s @ [nextBattle s]
             \<and> bid b = newId \<and> player1 b = c \<and> player2 b = a
             \<and> status b = Active \<and> turn b = 0 \<and> currentPlayer b = cid
             \<and> health b cid = Some 100 \<and> health b sid = Some 100
             \<and> inBattle (heap s' a) \<and> battleId (heap s' a) = Some newId
             \<and> inBattle (heap s' c) \<and> battleId (heap s' c) = Some newId
             \<and> timers s' = timers s @ [\<lparr>handle = nextHandle s, deadline = now + 30000,
                                         owner = nextBattle s\<rparr>]))"
    if f: "findPlayer s sid = Some a" "findPlayer s cid = Some c" for a c
  proof -
    have ids: "pid (heap s a) = sid" "pid (heap s c) = cid"
      using f by (simp_all add: findPlayer_pid)
    have r1: "inBattle (heap s a) \<or> inBattle (heap s c) \<longrightarrow>
           battle_accept s sid cid newId now = (s, Some AlreadyInBattle)"
      using f by (simp add: battle_accept_rejects)
    have r2: "\<not> inBattle (heap s a) \<and> \<not> inBattle (heap s c) \<and> resources (heap s a) < 10 \<longrightarrow>
           battle_accept s sid cid newId now = (s, Some NotEnoughFish)"
      using f by (simp add: battle_accept_rejects ATTACK_COST_def)
    have r3: "\<not> inBattle (heap s a) \<and> \<not> inBattle (heap s c) \<and> \<not> resources (heap s a) < 10
           \<and> sid \<noteq> cid \<longrightarrow>
           (let s' = fst (battle_accept s sid cid newId now);
                b = bheap s' (nextBattle s)
            in snd (battle_accept s sid cid newId now) = None
             \<and> battles s' = battles s @ [nextBattle s]
             \<and> bid b = newId \<and> player1 b = c \<and> player2 b = a
             \<and> status b = Active \<and> turn b = 0 \<and> currentPlayer b = cid
             \<and> health b cid = Some 100 \<and> health b sid = Some 100
             \<and> inBattle (heap s' a) \<and> battleId (heap s' a) = Some newId
             \<and> inBattle (heap s' c) \<and> battleId (heap s' c) = Some newId
             \<and> timers s' = timers s @ [\<lparr>handle = nextHandle s, deadline = now + 30000,
                                         owner = nextBattle s\<rparr>])"
    proof
      assume h: "\<not> inBattle (heap s a) \<and> \<not> inBattle (heap s c) \<and> \<not> resources (heap s a) < 10
           \<and> sid \<noteq> cid"
      then have ok: "\<not> inBattle (heap s a)" "\<not> inBattle (heap s c)"
        "\<not> resources (heap s a) < ATTACK_COST"
        by (simp_all add: ATTACK_COST_def)
      from h ids have ne: "a \<noteq> c" by auto
      note cr = battle_accept_creates [OF f ok, of newId now]
      show "let s' = fst (battle_accept s sid cid newId now);
                b = bheap s' (nextBattle s)
            in snd (battle_accept s sid cid newId now) = None
             \<and> battles s' = battles s @ [nextBattle s]
             \<and> bid b = newId \<and> player1 b = c \<and> player2 b = a
             \<and> status b = Active \<and> turn b = 0 \<and> currentPlayer b = cid
             \<and> health b cid = Some 100 \<and> health b sid = Some 100
             \<and> inBattle (heap s' a) \<and> battleId (heap s' a) = Some newId
             \<and> inBattle (heap s' c) \<and> battleId (heap s' c) = Some newId
             \<and> timers s' = timers s @ [\<lparr>handle = nextHandle s, deadline = now + 30000,
                                         owner = nextBattle s\<rparr>]"
        unfolding Let_def
        using ne ids h
        by (simp add: cr newBattle_def MAX_HEALTH_def TURN_TIME_def)
    qed
    from r1 r2 r3 show ?thesis by blast
  qed
  from nf rest show ?thesis by blast
qed

theorem battle_accept_validation_witness:
  "findPlayer (lobby 100 15 5 15) ''s2'' = Some 1
   \<and> findPlayer (lobby 100 15 5 15) ''s1'' = Some 0
   \<and> resources (heap (lobby 100 15 5 15) 1) < 10
   \<and> battle_accept (lobby 100 15 5 15) ''s2'' ''s1'' ''battle_a'' 0
       = (lobby 100 15 5 15, Some NotEnoughFish)
   \<and> findPlayer (lobby 100 15 100 15) ''s7'' = None
   \<and> battle_accept (lobby 100 15 100 15) ''s7'' ''s1'' ''battle_a'' 0
       = (lobby 100 15 100 15, Some PlayerNotFound)
   \<and> \<not> resources (heap (lobby 100 15 100 15) 1) < 10
   \<and> ''s2'' \<noteq> ''s1''
   \<and> snd (battle_accept (lobby 100 15 100 15) ''s2'' ''s1'' ''battle_a'' 0) = None
   \<and> battles (fst (battle_accept (lobby 100 15 100 15) ''s2'' ''s1'' ''battle_a'' 0)) = [0]
   \<and> inBattle (heap (duel 100 15 100 15) 1)
   \<and> battle_accept (duel 100 15 100 15) ''s2'' ''s1'' ''battle_b'' 5
       = (duel 100 15 100 15, Some AlreadyInBattle)"
proof -
  have f: "findPlayer (lobby 100 15 5 15) ''s2'' = Some 1"
    "findPlayer (lobby 100 15 5 15) ''s1'' = Some 0"
    "findPlayer (lobby 100 15 100 15) ''s2'' = Some 1"
    "findPlayer (lobby 100 15 100 15) ''s1'' = Some 0"
    by (simp_all add: lobby_find)
  have n: "findPlayer (lobby 100 15 100 15) ''s7'' = None"
    by (simp add: findPlayer_def lobby_players lobby_heap)
  have poor: "battle_accept (lobby 100 15 5 15) ''s2'' ''s1'' ''battle_a'' 0
       = (lobby 100 15 5 15, Some NotEnoughFish)"
    using battle_accept_validation [of "lobby 100 15 5 15" "''s2''" "''s1''" "''battle_a''" 0] f
    by (simp add: lobby_heap)
  have stranger: "battle_accept (lobby 100 15 100 15) ''s7'' ''s1'' ''battle_a'' 0
       = (lobby 100 15 100 15, Some PlayerNotFound)"
    using battle_accept_validation [of "lobby 100 15 100 15" "''s7''" "''s1''" "''battle_a''" 0] n
    by simp
  have ok: "snd (battle_accept (lobby 100 15 100 15) ''s2'' ''s1'' ''battle_a'' 0) = None
     \<and> battles (fst (battle_accept (lobby 100 15 100 15) ''s2'' ''s1'' ''battle_a'' 0)) = [0]"
    using battle_accept_validation [of "lobby 100 15 100 15" "''s2''" "''s1''" "''battle_a''" 0] f
    by (simp add: lobby_heap lobby_rest Let_def)
  have busy: "battle_accept (duel 100 15 100 15) ''s2'' ''s1'' ''battle_b'' 5
       = (duel 100 15 100 15, Some AlreadyInBattle)"
    using battle_accept_validation [of "duel 100 15 100 15" "''s2''" "''s1''" "''battle_b''" 5]
    by (simp add: duel_find duel_heap)
  from f n poor stranger ok busy show ?thesis by (simp add: lobby_heap duel_heap)
qed

text \<open>
  The claim as it stands fails: a challenger without resources is accepted. In the lobby
  Alice holds 0 resources; Bob accepts her challenge and the battle is created.
\<close>

theorem battle_accept_validation_counterexample:
  "findPlayer (lobby 0 15 100 15) ''s1'' = Some 0
   \<and> findPlayer (lobby 0 15 100 15) ''s2'' = Some 1
   \<and> resources (heap (lobby 0 15 100 15) 0) = 0
   \<and> snd (battle_accept (lobby 0 15 100 15) ''s2'' ''s1'' ''battle_a'' 0) = None
   \<and> battles (lobby 0 15 100 15) = []
   \<and> battles (fst (battle_accept (lobby 0 15 100 15) ''s2'' ''s1'' ''battle_a'' 0)) = [0]
   \<and> fst (battle_accept (lobby 0 15 100 15) ''s2'' ''s1'' ''battle_a'' 0) \<noteq> lobby 0 15 100 15"
proof -
  have f: "findPlayer (lobby 0 15 100 15) ''s2'' = Some 1"
    "findPlayer (lobby 0 15 100 15) ''s1'' = Some 0"
    by (simp_all add: lobby_find)
  have ok: "\<not> inBattle (heap (lobby 0 15 100 15) 1)" "\<not> inBattle (heap (lobby 0 15 100 15) 0)"
    "\<not> resources (heap (lobby 0 15 100 15) 1) < ATTACK_COST"
    by (simp_all add: lobby_heap ATTACK_COST_def)
  note cr = battle_accept_creates [OF f ok, of "''battle_a''" 0]
  have b: "battles (fst (battle_accept (lobby 0 15 100 15) ''s2'' ''s1'' ''battle_a'' 0)) = [0]"
    by (simp add: cr lobby_rest)
  then have "fst (battle_accept (lobby 0 15 100 15) ''s2'' ''s1'' ''battle_a'' 0)
               \<noteq> lobby 0 15 100 15"
    by (auto simp: lobby_rest)
  with b f cr(1) show ?thesis by (simp add: lobby_heap lobby_rest)
qed

text \<open>The acceptance of one's own challenge: a battle of a player against themselves.\<close>

lemma battle_accept_self:
  "snd (battle_accept (lobby 100 15 100 15) ''s1'' ''s1'' ''battle_a'' 0) = None"
  "player1 (bheap (fst (battle_accept (lobby 100 15 100 15) ''s1'' ''s1'' ''battle_a'' 0)) 0) = 0"
  "player2 (bheap (fst (battle_accept (lobby 100 15 100 15) ''s1'' ''s1'' ''battle_a'' 0)) 0) = 0"
proof -
  have f: "findPlayer (lobby 100 15 100 15) ''s1'' = Some 0" by (rule lobby_find)
  have ok: "\<not> inBattle (heap (lobby 100 15 100 15) 0)"
    "\<not> resources (heap (lobby 100 15 100 15) 0) < ATTACK_COST"
    by (simp_all add: lobby_heap ATTACK_COST_def)
  note cr = battle_accept_creates [OF f f ok(1) ok(1) ok(2), of "''battle_a''" 0]
  show "snd (battle_accept (lobby 100 15 100 15) ''s1'' ''s1'' ''battle_a'' 0) = None"
    by (rule cr)
  show "player1 (bheap (fst (battle_accept (lobby 100 15 100 15) ''s1'' ''s1'' ''battle_a'' 0)) 0) = 0"
    "player2 (bheap (fst (battle_accept (lobby 100 15 100 15) ''s1'' ''s1'' ''battle_a'' 0)) 0) = 0"
    using cr(4) by (simp_all add: lobby_rest newBattle_def)
qed

section \<open>Declining a challenge\<close>

text \<open>
  Claim C10. The handler of \<^verbatim>\<open>battle-decline\<close> throws a \<^verbatim>\<open>TypeError\<close> exactly when the
  named challenger is registered and the sender is not: it then reads the name of a
  record that is absent. When the challenger is not registered it sends nothing, and when
  both are registered it sends the decliner's name and the reason to the challenger.
\<close>

theorem battle_decline_total_iff:
  "(battle_decline s sid cid reason = Inl TypeError \<longleftrightarrow>
      findPlayer s sid = None \<and> findPlayer s cid \<noteq> None)
   \<and> (findPlayer s cid = None \<longrightarrow> battle_decline s sid cid reason = Inr None)
   \<and> (\<forall>c d. findPlayer s cid = Some c \<and> findPlayer s sid = Some d \<longrightarrow>
         battle_decline s sid cid reason
           = Inr (Some (pid (heap s c), name (heap s d), reason)))"
  by (auto simp: battle_decline_def Let_def split: option.splits)

theorem battle_decline_total_iff_witness:
  "findPlayer (lobby 100 15 100 15) ''s9'' = None
   \<and> findPlayer (lobby 100 15 100 15) ''s1'' \<noteq> None
   \<and> battle_decline (lobby 100 15 100 15) ''s9'' ''s1'' ''busy'' = Inl TypeError
   \<and> findPlayer (lobby 100 15 100 15) ''s2'' = Some 1
   \<and> battle_decline (lobby 100 15 100 15) ''s2'' ''s1'' ''busy''
       = Inr (Some (''s1'', ''Bob'', ''busy''))
   \<and> battle_decline (lobby 100 15 100 15) ''s2'' ''s9'' ''busy'' = Inr None"
proof -
  have a: "findPlayer (lobby 100 15 100 15) ''s9'' = None" by (rule lobby_stranger)
  have b: "findPlayer (lobby 100 15 100 15) ''s1'' = Some 0" by (rule lobby_find)
  have c: "findPlayer (lobby 100 15 100 15) ''s2'' = Some 1" by (rule lobby_find)
  from battle_decline_total_iff [of "lobby 100 15 100 15" "''s9''" "''s1''" "''busy''"] a b
  have "battle_decline (lobby 100 15 100 15) ''s9'' ''s1'' ''busy'' = Inl TypeError"
    by simp
  moreover
  from battle_decline_total_iff [of "lobby 100 15 100 15" "''s2''" "''s1''" "''busy''"] b c
  have "battle_decline (lobby 100 15 100 15) ''s2'' ''s1'' ''busy''
       = Inr (Some (''s1'', ''Bob'', ''busy''))"
    by (simp add: lobby_heap)
  moreover
  from battle_decline_total_iff [of "lobby 100 15 100 15" "''s2''" "''s9''" "''busy''"] a
  have "battle_decline (lobby 100 15 100 15) ''s2'' ''s9'' ''busy'' = Inr None"
    by simp
  ultimately show ?thesis using a b c by simp
qed

section \<open>Joining under one's own name\<close>

text \<open>
  Claim C9, at the input where the code departs from it. Alice is registered under the
  connection id \<open>s1\<close> with the name Alice; the only other player is Bob. She sends
  \<^verbatim>\<open>player-join\<close> again on the same connection with the same name. The search for a
  player with the same stripped name finds her own record, and her name becomes
  \<open>Alice_550\<close> (for the draw \<open>1/2\<close>). The rest of the policy holds: the name given is
  the requested name or its base with one suffix of three digits, so its base is the base
  of the requested name (\<open>joinName_cases\<close>, \<open>joinName_base\<close>).
\<close>

theorem rejoin_own_name_suffixed:
  "players (lobby 100 15 100 15) = [0, 1]
   \<and> pid (heap (lobby 100 15 100 15) 0) = ''s1''
   \<and> name (heap (lobby 100 15 100 15) 0) = ''Alice''
   \<and> stripSuffix (name (heap (lobby 100 15 100 15) 1)) \<noteq> stripSuffix ''Alice''
   \<and> players (player_join (lobby 100 15 100 15) ''s1'' (profile ''Alice'' 100 15) 0 (1/2))
       = [0, 1]
   \<and> name (heap (player_join (lobby 100 15 100 15) ''s1'' (profile ''Alice'' 100 15) 0 (1/2)) 0)
       = ''Alice_550''"
  by (simp add: lobby_players lobby_heap lobby_find player_join_def joinName_def
       requestedName_def profile_def trim_Alice stripSuffix_Alice stripSuffix_Bob Let_def
       decimal_550 randomSuffix_half)

section \<open>The health of the participants\<close>




lemma turnTimeout_frame:
  "pid (heap (turnTimeout this now s) r) = pid (heap s r)"
  "player1 (bheap (turnTimeout this now s) x) = player1 (bheap s x)"
  "player2 (bheap (turnTimeout this now s) x) = player2 (bheap s x)"
  "bid (bheap (turnTimeout this now s) x) = bid (bheap s x)"
  "players (turnTimeout this now s) = players s"
  "battles (turnTimeout this now s) = battles s"
  "x \<noteq> this \<Longrightarrow> bheap (turnTimeout this now s) x = bheap s x"
  by (simp_all add: turnTimeout_def Let_def finishBattle_bheap)









text \<open>
  What the handlers do to a battle is covered by the rules of \<open>reachable\<close>: they run
  the methods of the battle they look up and leave every other battle as it is.
\<close>

lemma reachable_battle_attack:
  assumes r: "reachable P s this" and rnd: "0 \<le> rnd" "rnd < 1"
    and P: "\<And>r. P (clickPower (heap s r))"
  shows "reachable P (fst (battle_attack s sid wanted sp rnd coin)) this"
proof (cases "findPlayer s sid")
  case None
  with r show ?thesis by (simp add: battle_attack_def)
next
  case (Some p)
  show ?thesis
  proof (cases "findBattle s wanted")
    case None
    with Some r show ?thesis by (simp add: battle_attack_def)
  next
    case b: (Some b)
    show ?thesis
    proof (cases "isParticipant s b (pid (heap s p)) \<and> status (bheap s b) = Active")
      case False
      with Some b r show ?thesis by (auto simp: battle_attack_def)
    next
      case True
      then have eq: "fst (battle_attack s sid wanted sp rnd coin)
                   = fst (performAttack s b (pid (heap s p)) sp rnd coin)"
        using Some b by (simp add: battle_attack_fst)
      show ?thesis
      proof (cases "b = this")
        case True
        with r rnd P show ?thesis unfolding eq by (simp add: reachable.attack)
      next
        case False
        then have "bheap (fst (performAttack s b (pid (heap s p)) sp rnd coin)) this
                 = bheap s this"
          by (simp add: performAttack_battle_frame)
        with r show ?thesis unfolding eq
          by (rule reachable.others) (simp_all add: performAttack_frame)
      qed
    qed
  qed
qed

lemma reachable_battle_cancel:
  assumes r: "reachable P s this"
  shows "reachable P (fst (battle_cancel s sid wanted reason)) this"
proof (cases "findPlayer s sid")
  case None
  with r show ?thesis by (simp add: battle_cancel_def)
next
  case (Some p)
  show ?thesis
  proof (cases "findBattle s wanted")
    case None
    with Some r show ?thesis by (simp add: battle_cancel_def)
  next
    case b: (Some b)
    show ?thesis
    proof (cases "isParticipant s b (pid (heap s p))")
      case False
      with Some b r show ?thesis by (simp add: battle_cancel_def)
    next
      case True
      have c: "reachable P (cancelBattle b reason s) this"
      proof (cases "b = this")
        case True
        with r show ?thesis by (simp add: reachable.cancel)
      next
        case False
        with r show ?thesis
          by (rule_tac reachable.others) (simp_all add: cancelBattle_bheap)
      qed
      show ?thesis
        using Some b True
        by (simp add: battle_cancel_def Let_def)
           (rule reachable.others [OF c], simp_all)
    qed
  qed
qed

lemma reachable_fireTimer:
  assumes r: "reachable P s this"
  shows "reachable P (fireTimer h now s) this"
proof (cases "List.find (\<lambda>t. handle t = h) (timers s)")
  case None
  with r show ?thesis by (simp add: fireTimer_def)
next
  case (Some t)
  have c: "reachable P (clearTimeout h s) this"
    using r by (rule reachable.others) simp_all
  show ?thesis
  proof (cases "owner t = this")
    case True
    with Some c show ?thesis by (simp add: fireTimer_def reachable.timeout)
  next
    case False
    with Some show ?thesis
      by (simp add: fireTimer_def)
         (rule reachable.others [OF c], simp_all add: turnTimeout_frame)
  qed
qed

lemma reachable_player_join:
  assumes r: "reachable P s this"
    and fresh: "nextPlayer s \<notin> {player1 (bheap s this), player2 (bheap s this)}"
  shows "reachable P (player_join s sid playerData rnd1 rnd2) this"
  using r
  by (rule reachable.others)
     (use fresh in \<open>auto simp: player_join_def Let_def split: option.splits\<close>)

lemma reachable_player_update:
  assumes r: "reachable P s this"
  shows "reachable P (player_update s sid playerData) this"
  using r
  by (rule reachable.others) (auto simp: player_update_def split: option.splits)

lemma reachable_disconnectBattle:
  assumes r: "reachable P s this"
  shows "reachable P (disconnectBattle sid b s) this"
proof -
  have c: "reachable P (cancelBattle b (disconnectReason sid) s) this"
  proof (cases "b = this")
    case True
    with r show ?thesis by (simp add: reachable.cancel)
  next
    case False
    with r show ?thesis
      by (rule_tac reachable.others) (simp_all add: cancelBattle_bheap)
  qed
  show ?thesis
    unfolding disconnectBattle_def Let_def
    by (rule reachable.others [OF c]) simp_all
qed

lemma reachable_fold_disconnectBattle:
  "reachable P s this \<Longrightarrow> reachable P (fold (disconnectBattle sid) bs s) this"
  by (induction bs arbitrary: s) (simp_all add: reachable_disconnectBattle)

lemma reachable_disconnect:
  assumes r: "reachable P s this"
  shows "reachable P (disconnect s sid) this"
proof -
  let ?s1 = "fold (disconnectBattle sid)
               (filter (\<lambda>b. isParticipant s b sid) (battles s)) s"
  have r1: "reachable P ?s1 this" using r by (rule reachable_fold_disconnectBattle)
  show ?thesis
    unfolding disconnect_def Let_def
    by (rule reachable.others [OF r1]) (simp_all split: option.split)
qed





end
